theory Spec2Isabelle
  imports Main "HOL-Library.Word"
begin

section \<open>The ledger contract: SoftwareLicense.sol\<close>

text \<open>
  The repository holds two versions of the token contract,
  \<^verbatim>\<open>contracts/SoftwareLicense.sol\<close> and
  \<^verbatim>\<open>workspace/my-smart-contract/contracts/SoftwareLicense.sol\<close>. Both extend
  OpenZeppelin's ERC721 and Ownable. The storage of the contract is a record; a
  Solidity mapping is a total function whose default is the zero value; a
  \<^verbatim>\<open>require\<close> that fails, or a custom error, is the left summand of the result.
\<close>

type_synonym address = "160 word"
type_synonym uint256 = "256 word"

datatype revert = Revert string

datatype event =
    Transfer address address uint256
  | LicenseValidated uint256 address string bool
  | LicenseBlockedStatusChanged uint256 bool

record storage =
  owners :: "uint256 \<Rightarrow> address"
  balances :: "address \<Rightarrow> uint256"
  tokenApprovals :: "uint256 \<Rightarrow> address"
  operatorApprovals :: "address \<Rightarrow> address \<Rightarrow> bool"
  licenseIpLock :: "uint256 \<Rightarrow> string"
  isLicenseBlocked :: "uint256 \<Rightarrow> bool"

subsection \<open>The inherited ERC721 functions\<close>

text \<open>
  These are OpenZeppelin's, which the contract inherits and calls; they are written
  here from the library (version 5 for \<^verbatim>\<open>_update\<close>, \<^verbatim>\<open>ownerOf\<close> and
  \<^verbatim>\<open>transferFrom\<close>; \<^verbatim>\<open>_exists\<close> is the helper of version 4 that both contract
  files call).
\<close>

definition ownerOf_internal :: "storage \<Rightarrow> uint256 \<Rightarrow> address" where
  \<comment> \<open>\<^verbatim>\<open>_ownerOf(tokenId)\<close>: a plain read of the mapping.\<close>
  "ownerOf_internal st tokenId = owners st tokenId"

definition exists_internal :: "storage \<Rightarrow> uint256 \<Rightarrow> bool" where
  \<comment> \<open>\<^verbatim>\<open>_exists(tokenId)\<close>\<close>
  "exists_internal st tokenId = (ownerOf_internal st tokenId \<noteq> 0)"

definition ownerOf :: "storage \<Rightarrow> uint256 \<Rightarrow> revert + address" where
  \<comment> \<open>The public \<^verbatim>\<open>ownerOf\<close>: it reverts for a token with no owner.\<close>
  "ownerOf st tokenId =
     (let owner = ownerOf_internal st tokenId in
      if owner = 0 then Inl (Revert ''ERC721NonexistentToken'') else Inr owner)"

definition isAuthorized :: "storage \<Rightarrow> address \<Rightarrow> address \<Rightarrow> uint256 \<Rightarrow> bool" where
  "isAuthorized st owner spender tokenId =
     (spender \<noteq> 0 \<and>
      (owner = spender \<or> operatorApprovals st owner spender \<or>
       tokenApprovals st tokenId = spender))"

definition ERC721_update ::
  "storage \<Rightarrow> address \<Rightarrow> uint256 \<Rightarrow> address \<Rightarrow> revert + (address \<times> event list \<times> storage)" where
  \<comment> \<open>\<^verbatim>\<open>ERC721._update(to, tokenId, auth)\<close>: the one place that writes a holder.\<close>
  "ERC721_update st to tokenId auth =
     (let from = ownerOf_internal st tokenId in
      if auth \<noteq> 0 \<and> \<not> isAuthorized st from auth tokenId then
        (if from = 0 then Inl (Revert ''ERC721NonexistentToken'')
         else Inl (Revert ''ERC721InsufficientApproval''))
      else
        let st1 = (if from \<noteq> 0
                   then st\<lparr>tokenApprovals := (tokenApprovals st)(tokenId := 0),
                           balances := (balances st)(from := balances st from - 1)\<rparr>
                   else st);
            st2 = (if to \<noteq> 0
                   then st1\<lparr>balances := (balances st1)(to := balances st1 to + 1)\<rparr>
                   else st1);
            st3 = st2\<lparr>owners := (owners st2)(tokenId := to)\<rparr>
        in Inr (from, [Transfer from to tokenId], st3))"

subsection \<open>contracts/SoftwareLicense.sol\<close>

definition SoftwareLicense_update ::
  "storage \<Rightarrow> address \<Rightarrow> uint256 \<Rightarrow> address \<Rightarrow> revert + (address \<times> event list \<times> storage)" where
  \<comment> \<open>The override of \<^verbatim>\<open>_update\<close>: only a mint or a burn goes on to the inherited function.\<close>
  "SoftwareLicense_update st to tokenId auth =
     (let from = ownerOf_internal st tokenId in
      if from \<noteq> 0 \<and> to \<noteq> 0 then
        Inl (Revert ''Tokens are non-transferable and can only be burned.'')
      else ERC721_update st to tokenId auth)"

definition validateLicense ::
  "(string \<Rightarrow> 'h) \<Rightarrow> storage \<Rightarrow> uint256 \<Rightarrow> string \<Rightarrow> revert + bool" where
  \<comment> \<open>\<^verbatim>\<open>keccak256\<close> is a parameter: the contract compares the two digests.\<close>
  "validateLicense keccak256 st tokenId ipAddress =
     (if \<not> exists_internal st tokenId then Inl (Revert ''License does not exist.'')
      else if isLicenseBlocked st tokenId then Inr False
      else
        let ipLock = licenseIpLock st tokenId in
        if length ipLock > 0 \<and> keccak256 ipLock \<noteq> keccak256 ipAddress then Inr False
        else Inr True)"

subsection \<open>workspace/my-smart-contract/contracts/SoftwareLicense.sol\<close>

definition SoftwareLicense_ws_update ::
  "storage \<Rightarrow> address \<Rightarrow> uint256 \<Rightarrow> address \<Rightarrow> revert + (address \<times> event list \<times> storage)" where
  \<comment> \<open>This version reads the holder through the public \<^verbatim>\<open>ownerOf\<close>, which reverts
      for a token that has no holder.\<close>
  "SoftwareLicense_ws_update st to tokenId auth =
     (case ownerOf st tokenId of
        Inl r \<Rightarrow> Inl r
      | Inr holder \<Rightarrow>
          if holder \<noteq> 0 \<and> to \<noteq> 0 then
            Inl (Revert ''SFTL: This license token is non-transferable.'')
          else ERC721_update st to tokenId auth)"

definition validateLicense_ws ::
  "(string \<Rightarrow> 'h) \<Rightarrow> storage \<Rightarrow> uint256 \<Rightarrow> string \<Rightarrow> revert + (bool \<times> event list)" where
  \<comment> \<open>The same decision; each outcome is also announced by a \<^verbatim>\<open>LicenseValidated\<close> event.\<close>
  "validateLicense_ws keccak256 st tokenId ipAddress =
     (if \<not> exists_internal st tokenId then Inl (Revert ''ERC721: token nonexistent'')
      else
        case ownerOf st tokenId of
          Inl r \<Rightarrow> Inl r
        | Inr owner \<Rightarrow>
            if isLicenseBlocked st tokenId then
              Inr (False, [LicenseValidated tokenId owner ipAddress False])
            else
              let lockedIp = licenseIpLock st tokenId in
              if length lockedIp > 0 \<and> keccak256 lockedIp \<noteq> keccak256 ipAddress then
                Inr (False, [LicenseValidated tokenId owner ipAddress False])
              else Inr (True, [LicenseValidated tokenId owner ipAddress True]))"

subsection \<open>The public transfer and the burn, through either override\<close>

definition transferFrom ::
  "(storage \<Rightarrow> address \<Rightarrow> uint256 \<Rightarrow> address \<Rightarrow> revert + (address \<times> event list \<times> storage))
     \<Rightarrow> address \<Rightarrow> storage \<Rightarrow> address \<Rightarrow> address \<Rightarrow> uint256 \<Rightarrow> revert + (event list \<times> storage)" where
  \<comment> \<open>\<^verbatim>\<open>ERC721.transferFrom(from, to, tokenId)\<close> called by \<open>sender\<close>; \<open>upd\<close> is the
      contract's \<^verbatim>\<open>_update\<close>.\<close>
  "transferFrom upd sender st from to tokenId =
     (if to = 0 then Inl (Revert ''ERC721InvalidReceiver'')
      else
        case upd st to tokenId sender of
          Inl r \<Rightarrow> Inl r
        | Inr (previousOwner, evs, st') \<Rightarrow>
            if previousOwner \<noteq> from then Inl (Revert ''ERC721IncorrectOwner'')
            else Inr (evs, st'))"

definition burn ::
  "(storage \<Rightarrow> address \<Rightarrow> uint256 \<Rightarrow> address \<Rightarrow> revert + (address \<times> event list \<times> storage))
     \<Rightarrow> storage \<Rightarrow> uint256 \<Rightarrow> revert + (event list \<times> storage)" where
  \<comment> \<open>\<^verbatim>\<open>ERC721._burn(tokenId)\<close>\<close>
  "burn upd st tokenId =
     (case upd st 0 tokenId 0 of
        Inl r \<Rightarrow> Inl r
      | Inr (previousOwner, evs, st') \<Rightarrow>
          if previousOwner = 0 then Inl (Revert ''ERC721NonexistentToken'')
          else Inr (evs, st'))"

definition minted_example :: storage where
  \<comment> \<open>Token 7 held by \<open>0xABC\<close>, locked to one address; token 8 held and blocked.\<close>
  "minted_example =
     \<lparr>owners = (\<lambda>_. 0)(7 := 0xABC, 8 := 0xABC),
      balances = (\<lambda>_. 0)(0xABC := 2),
      tokenApprovals = (\<lambda>_. 0),
      operatorApprovals = (\<lambda>_ _. False),
      licenseIpLock = (\<lambda>_. [])(7 := ''10.0.0.1''),
      isLicenseBlocked = (\<lambda>_. False)(8 := True)\<rparr>"

section \<open>The license registry: src/lib/auth.ts\<close>

subsection \<open>JavaScript strings and the ObjectId of the database driver\<close>

text \<open>
  The server functions of \<^verbatim>\<open>auth.ts\<close> read and write a MongoDB database and call
  the ledger through ethers. In the model a function takes the state of the database and
  returns its response with the new state. What the ledger answers is an argument of the
  function, and so is a throwing call where a claim is about one. The database itself is
  taken to answer every call, so the catch-all handlers at the end of each function, which
  turn an exception of the driver into a generic failure, have no branch here; the one
  exception is the write of \<^verbatim>\<open>revokeLicense\<close>, which may throw.

  Strings are lists of characters. Addresses, identifiers and messages are ASCII, and the
  functions below are the JavaScript ones on ASCII text (ethers answers \<^verbatim>\<open>ownerOf\<close>
  with a hexadecimal address).
\<close>

definition isUpper :: "char \<Rightarrow> bool" where
  "isUpper c = (65 \<le> (of_char c :: nat) \<and> (of_char c :: nat) \<le> 90)"

definition toLowerChar :: "char \<Rightarrow> char" where
  "toLowerChar c = (if isUpper c then char_of ((of_char c :: nat) + 32) else c)"

definition toLowerCase :: "string \<Rightarrow> string" where
  \<comment> \<open>\<^verbatim>\<open>s.toLowerCase()\<close>\<close>
  "toLowerCase s = map toLowerChar s"

fun startsWith :: "string \<Rightarrow> string \<Rightarrow> bool" where
  "startsWith s [] = True"
| "startsWith [] (c # t) = False"
| "startsWith (a # s) (c # t) = (a = c \<and> startsWith s t)"

fun str_includes :: "string \<Rightarrow> string \<Rightarrow> bool" where
  \<comment> \<open>\<^verbatim>\<open>s.includes(t)\<close>\<close>
  "str_includes [] t = (t = [])"
| "str_includes (a # s) t = (startsWith (a # s) t \<or> str_includes s t)"

fun show_nat :: "nat \<Rightarrow> string" where
  \<comment> \<open>A number inside a template string.\<close>
  "show_nat n =
     (if n < 10 then [char_of (48 + n)]
      else show_nat (n div 10) @ [char_of (48 + n mod 10)])"

declare show_nat.simps [simp del]

type_synonym objectId = nat

definition isHexDigit :: "char \<Rightarrow> bool" where
  "isHexDigit c =
     (let n = (of_char c :: nat)
      in (48 \<le> n \<and> n \<le> 57) \<or> (65 \<le> n \<and> n \<le> 70) \<or> (97 \<le> n \<and> n \<le> 102))"

definition hexValue :: "char \<Rightarrow> nat" where
  "hexValue c =
     (let n = (of_char c :: nat)
      in if n \<le> 57 then n - 48 else if n \<le> 70 then n - 55 else n - 87)"

definition ObjectId_isValid :: "string \<Rightarrow> bool" where
  \<comment> \<open>\<^verbatim>\<open>ObjectId.isValid(s)\<close> of the driver, for a string: 24 hexadecimal digits.\<close>
  "ObjectId_isValid s = (length s = 24 \<and> list_all isHexDigit s)"

definition ObjectId :: "string \<Rightarrow> objectId" where
  \<comment> \<open>\<^verbatim>\<open>new ObjectId(s)\<close>: the twelve bytes the digits denote.\<close>
  "ObjectId s = foldl (\<lambda>acc c. 16 * acc + hexValue c) 0 s"

subsection \<open>The stored documents\<close>

datatype status = Active | Revoked | Blocked | DeletedByUser

fun status_str :: "status \<Rightarrow> string" where
  "status_str Active = ''active''"
| "status_str Revoked = ''revoked''"
| "status_str Blocked = ''blocked''"
| "status_str DeletedByUser = ''deleted_by_user''"

record LicensingRules =
  ipLock :: bool
  fingerprintLock :: bool

record software =
  sellerId :: objectId
  title :: string
  fileUrl :: string
  licensingRules :: LicensingRules
  decryptionKey :: string

record license =
  softwareId :: objectId
  buyerAddress :: string
  tokenId :: nat
  buyerIp :: string
  deviceId :: string
  status :: status
  reason :: "string option"
  lastViolationDate :: "nat option"

record user =
  username :: string
  email :: string

record mail =
  mail_to :: string
  mail_subject :: string

text \<open>
  The state the server functions work on: the three collections of the database and
  the mail that has been handed to the mail transport.
\<close>

record world =
  licenses :: "objectId \<rightharpoonup> license"
  softwareColl :: "objectId \<rightharpoonup> software"
  usersColl :: "objectId \<rightharpoonup> user"
  outbox :: "mail list"

text \<open>The environment variables; an unset variable is the empty string (both are falsy).\<close>

record env =
  NEXT_PUBLIC_AMOY_RPC_URL :: string
  NEXT_PUBLIC_SELLER_PRIVATE_KEY :: string
  EMAIL_SERVER_USER :: string
  EMAIL_SERVER_PASSWORD :: string

text \<open>What a server function returns: \<^verbatim>\<open>{ success, message, key?, fileUrl? }\<close>.\<close>

record response =
  success :: bool
  message :: string
  key :: "string option"
  keyFileUrl :: "string option"

definition failure :: "string \<Rightarrow> response" where
  "failure msg = \<lparr>success = False, message = msg, key = None, keyFileUrl = None\<rparr>"

definition succeeded :: "string \<Rightarrow> response" where
  "succeeded msg = \<lparr>success = True, message = msg, key = None, keyFileUrl = None\<rparr>"

text \<open>
  The calls that leave the server. An exception carries an optional \<^verbatim>\<open>reason\<close> and a
  \<^verbatim>\<open>message\<close>. The read \<^verbatim>\<open>contract.ownerOf(tokenId)\<close> answers with the holder or
  throws; the transaction \<^verbatim>\<open>contract.revokeLicense(tokenId)\<close> with its
  \<^verbatim>\<open>tx.wait()\<close> is confirmed or throws; a write to the database is applied or throws.
\<close>

datatype js_error = JsError "string option" string

datatype owner_reply = Holder string | CallError js_error

datatype tx_outcome = TxConfirmed | TxThrew js_error

datatype write_outcome = WriteApplied | WriteThrew js_error

fun error_text :: "js_error \<Rightarrow> string" where
  \<comment> \<open>\<^verbatim>\<open>error.reason || error.message\<close>\<close>
  "error_text (JsError None msg) = msg"
| "error_text (JsError (Some r) msg) = (if r = [] then msg else r)"

fun reports_burned :: "js_error \<Rightarrow> bool" where
  \<comment> \<open>\<^verbatim>\<open>contractError.reason && contractError.reason.includes('invalid token ID')\<close>\<close>
  "reports_burned (JsError None msg) = False"
| "reports_burned (JsError (Some r) msg) = (r \<noteq> [] \<and> str_includes r ''invalid token ID'')"

definition updateOne_license ::
  "world \<Rightarrow> objectId \<Rightarrow> (license \<Rightarrow> license) \<Rightarrow> nat \<times> world" where
  \<comment> \<open>\<^verbatim>\<open>db.collection('licenses').updateOne({ _id }, change)\<close>, with its \<^verbatim>\<open>modifiedCount\<close>.\<close>
  "updateOne_license w oid change =
     (case licenses w oid of
        None \<Rightarrow> (0, w)
      | Some l \<Rightarrow>
          (if change l = l then 0 else 1, w\<lparr>licenses := (licenses w)(oid \<mapsto> change l)\<rparr>))"

subsection \<open>The server functions\<close>

definition sendViolationEmail :: "env \<Rightarrow> world \<Rightarrow> license \<Rightarrow> world" where
  \<comment> \<open>The helper that mails the seller. No function of the file calls it.\<close>
  \<open>sendViolationEmail e w lic =
     (if EMAIL_SERVER_USER e = [] \<or> EMAIL_SERVER_PASSWORD e = [] then w
      else
        case softwareColl w (softwareId lic) of
          None \<Rightarrow> w
        | Some sw \<Rightarrow>
            (case usersColl w (sellerId sw) of
               None \<Rightarrow> w
             | Some seller \<Rightarrow>
                 if email seller = [] then w
                 else w\<lparr>outbox := outbox w @
                        [\<lparr>mail_to = email seller,
                          mail_subject = ''[Security Alert] License for "'' @ title sw @
                            ''" has been blocked''\<rparr>]\<rparr>))\<close>

definition bindDeviceToLicense :: "world \<Rightarrow> string \<Rightarrow> string \<Rightarrow> response \<times> world" where
  "bindDeviceToLicense w licenseId device =
     (if licenseId = [] \<or> device = [] then
        (failure ''License ID and Device ID are required.'', w)
      else if \<not> ObjectId_isValid licenseId then
        (failure ''Invalid license ID format.'', w)
      else
        case licenses w (ObjectId licenseId) of
          None \<Rightarrow> (failure ''License not found.'', w)
        | Some lic \<Rightarrow>
            if (case softwareColl w (softwareId lic) of
                  None \<Rightarrow> True
                | Some sw \<Rightarrow> \<not> fingerprintLock (licensingRules sw)) then
              (succeeded ''Device binding is not required for this license.'', w)
            else if deviceId lic \<noteq> [] \<and> deviceId lic \<noteq> device then
              (failure ''This license is already bound to another device.'', w)
            else if deviceId lic = [] then
              (let (modifiedCount, w') =
                     updateOne_license w (ObjectId licenseId) (\<lambda>l. l\<lparr>deviceId := device\<rparr>)
               in if modifiedCount > 0 then
                    (succeeded ''Device successfully bound to license.'', w')
                  else (succeeded ''Device is already correctly bound.'', w'))
            else (succeeded ''Device is already correctly bound.'', w))"

definition getDecryptionKey ::
  "env \<Rightarrow> (nat \<Rightarrow> owner_reply) \<Rightarrow> nat \<Rightarrow> world \<Rightarrow> string \<Rightarrow> string \<Rightarrow> string
     \<Rightarrow> response \<times> world" where
  \<comment> \<open>\<open>contract_ownerOf\<close> is the answer of the ledger to the ownership read; \<open>now\<close>
      is \<^verbatim>\<open>new Date()\<close>.\<close>
  "getDecryptionKey e contract_ownerOf now w licenseId device walletAddress =
     (if licenseId = [] \<or> device = [] \<or> walletAddress = [] then
        (failure ''License ID, Device ID, and Wallet Address are required.'', w)
      else if NEXT_PUBLIC_AMOY_RPC_URL e = [] then
        (failure ''The server is not configured to communicate with the blockchain.'', w)
      else if \<not> ObjectId_isValid licenseId then
        (failure ''Invalid license ID format.'', w)
      else
        case licenses w (ObjectId licenseId) of
          None \<Rightarrow> (failure ''License not found in the database.'', w)
        | Some lic \<Rightarrow>
            if status lic \<noteq> Active then
              (failure (''License is not active. Current status: '' @ status_str (status lic) @
                 ''. Contact the seller for assistance.''), w)
            else
              case softwareColl w (softwareId lic) of
                None \<Rightarrow> (failure ''Could not find the associated software.'', w)
              | Some sw \<Rightarrow>
                  (case contract_ownerOf (tokenId lic) of
                     CallError contractError \<Rightarrow>
                       if reports_burned contractError then
                         (failure ''This license has been revoked and no longer exists on the blockchain.'',
                          snd (updateOne_license w (ObjectId licenseId)
                                 (\<lambda>l. l\<lparr>status := Revoked,
                                        reason := Some ''Token does not exist (burned)'',
                                        lastViolationDate := Some now\<rparr>)))
                       else
                         (failure ''Could not verify license ownership on the blockchain.'', w)
                   | Holder ownerOfToken \<Rightarrow>
                       if toLowerCase ownerOfToken \<noteq> toLowerCase walletAddress then
                         (failure ''Smart contract check failed: The connected wallet is not the owner of this license NFT.'', w)
                       else if fingerprintLock (licensingRules sw) \<and>
                               deviceId lic \<noteq> [] \<and> deviceId lic \<noteq> device then
                         (failure ''Device mismatch. This license is not bound to this device.'', w)
                       else if decryptionKey sw = [] \<or> fileUrl sw = [] then
                         (failure ''Could not find the software's decryption key or file URL.'', w)
                       else
                         (\<lparr>success = True, message = ''Key retrieved successfully.'',
                           key = Some (decryptionKey sw), keyFileUrl = Some (fileUrl sw)\<rparr>, w)))"

definition revokeLicense ::
  "env \<Rightarrow> (nat \<Rightarrow> tx_outcome) \<Rightarrow> write_outcome \<Rightarrow> world \<Rightarrow> string \<Rightarrow> response \<times> world" where
  \<comment> \<open>\<open>contract_revokeLicense\<close> is the outcome of the burn on the ledger, from the
      making of the signer to \<^verbatim>\<open>tx.wait()\<close>; \<open>store\<close> is the outcome of the write
      that follows it.\<close>
  "revokeLicense e contract_revokeLicense store w licenseId =
     (if NEXT_PUBLIC_SELLER_PRIVATE_KEY e = [] \<or> NEXT_PUBLIC_AMOY_RPC_URL e = [] then
        (failure ''Server is not configured for blockchain transactions.'', w)
      else if licenseId = [] \<or> \<not> ObjectId_isValid licenseId then
        (failure ''Invalid license ID.'', w)
      else
        case licenses w (ObjectId licenseId) of
          None \<Rightarrow> (failure ''License not found.'', w)
        | Some lic \<Rightarrow>
            (case contract_revokeLicense (tokenId lic) of
               TxThrew err \<Rightarrow> (failure (''Failed to revoke license: '' @ error_text err), w)
             | TxConfirmed \<Rightarrow>
                 (case store of
                    WriteThrew err \<Rightarrow>
                      (failure (''Failed to revoke license: '' @ error_text err), w)
                  | WriteApplied \<Rightarrow>
                      (succeeded (''License '' @ show_nat (tokenId lic) @
                         '' has been permanently revoked.''),
                       snd (updateOne_license w (ObjectId licenseId)
                              (\<lambda>l. l\<lparr>status := Revoked, reason := Some ''Seller revoked''\<rparr>))))))"

definition reactivateLicense :: "world \<Rightarrow> string \<Rightarrow> response \<times> world" where
  "reactivateLicense w licenseId =
     (if licenseId = [] \<or> \<not> ObjectId_isValid licenseId then
        (failure ''Invalid license ID.'', w)
      else
        case licenses w (ObjectId licenseId) of
          None \<Rightarrow> (failure ''License not found.'', w)
        | Some lic \<Rightarrow>
            if status lic = Revoked then
              (failure ''Cannot reactivate a revoked (burned) license.'', w)
            else
              (succeeded ''License has been reactivated.'',
               snd (updateOne_license w (ObjectId licenseId)
                      (\<lambda>l. l\<lparr>status := Active, reason := None, lastViolationDate := None\<rparr>))))"

subsection \<open>The route /api/license/delete-by-buyer\<close>

definition delete_by_buyer_POST ::
  "(string \<Rightarrow> bool) \<Rightarrow> world \<Rightarrow> string \<Rightarrow> string \<Rightarrow> (response \<times> nat) \<times> world" where
  \<comment> \<open>The buyer's removal of a license from the list. \<open>isAddress\<close> is
      \<^verbatim>\<open>ethers.isAddress\<close>; the number is the HTTP status.\<close>
  "delete_by_buyer_POST isAddress w licenseId walletAddress =
     (if licenseId = [] \<or> walletAddress = [] then
        ((failure ''Missing licenseId or walletAddress'', 400), w)
      else if \<not> ObjectId_isValid licenseId then
        ((failure ''Invalid license ID format.'', 400), w)
      else if \<not> isAddress walletAddress then
        ((failure ''Invalid wallet address format.'', 400), w)
      else
        case licenses w (ObjectId licenseId) of
          None \<Rightarrow>
            ((failure ''License not found or you do not have permission to modify it.'', 404), w)
        | Some lic \<Rightarrow>
            if buyerAddress lic \<noteq> toLowerCase walletAddress then
              ((failure ''License not found or you do not have permission to modify it.'', 404), w)
            else
              (let (modifiedCount, w') =
                     updateOne_license w (ObjectId licenseId) (\<lambda>l. l\<lparr>status := DeletedByUser\<rparr>)
               in if modifiedCount > 0 then
                    ((succeeded ''License has been removed.'', 200), w')
                  else ((failure ''Failed to update the license status.'', 500), w')))"

definition isLowerHexAddress :: "string \<Rightarrow> bool" where
  \<comment> \<open>Addresses that \<^verbatim>\<open>ethers.isAddress\<close> accepts without a checksum: \<^verbatim>\<open>0x\<close> and
      forty digits, none of them upper case.\<close>
  "isLowerHexAddress s =
     (length s = 42 \<and> startsWith s ''0x'' \<and>
      list_all (\<lambda>c. isHexDigit c \<and> \<not> isUpper c) (drop 2 s))"

subsection \<open>Equality up to letter case, character by character\<close>

text \<open>
  The specification speaks of a holder that equals the requester's address ``up to letter
  case''. This is that relation, stated without \<open>toLowerCase\<close>: the two strings have
  the same length and, position by position, the same character or the two cases of one
  letter.
\<close>

definition sameLetter :: "char \<Rightarrow> char \<Rightarrow> bool" where
  "sameLetter a b =
     (a = b \<or> (isUpper a \<and> (of_char b :: nat) = of_char a + 32)
            \<or> (isUpper b \<and> (of_char a :: nat) = of_char b + 32))"

definition equalIgnoringCase :: "string \<Rightarrow> string \<Rightarrow> bool" where
  "equalIgnoringCase s t = list_all2 sameLetter s t"

subsection \<open>Sequences of calls on the registry\<close>

text \<open>
  A call of one of the four server functions that work on a license, with the answers of
  the ledger and of the database it meets; \<open>run\<close> performs a list of calls one after
  the other and collects the responses.
\<close>

datatype call =
    Reactivate string
  | GetKey env "nat \<Rightarrow> owner_reply" nat string string string
  | Bind string string
  | Revoke env "nat \<Rightarrow> tx_outcome" write_outcome string

fun perform :: "world \<Rightarrow> call \<Rightarrow> response \<times> world" where
  "perform w (Reactivate licenseId) = reactivateLicense w licenseId"
| "perform w (GetKey e contract_ownerOf now licenseId device walletAddress) =
     getDecryptionKey e contract_ownerOf now w licenseId device walletAddress"
| "perform w (Bind licenseId device) = bindDeviceToLicense w licenseId device"
| "perform w (Revoke e contract_revokeLicense store licenseId) =
     revokeLicense e contract_revokeLicense store w licenseId"

fun run :: "world \<Rightarrow> call list \<Rightarrow> response list \<times> world" where
  "run w [] = ([], w)"
| "run w (c # cs) =
     (let (r, w') = perform w c; (rs, w'') = run w' cs in (r # rs, w''))"

definition revoked_in :: "world \<Rightarrow> objectId \<Rightarrow> bool" where
  "revoked_in w oid = (case licenses w oid of None \<Rightarrow> False | Some l \<Rightarrow> status l = Revoked)"

fun asks_release :: "objectId \<Rightarrow> call \<Rightarrow> bool" where
  "asks_release oid (Reactivate licenseId) = (ObjectId licenseId = oid)"
| "asks_release oid (GetKey e contract_ownerOf now licenseId device walletAddress) =
     (ObjectId licenseId = oid)"
| "asks_release oid (Bind licenseId device) = False"
| "asks_release oid (Revoke e contract_revokeLicense store licenseId) = False"

subsection \<open>The gate and the locality data\<close>

text \<open>
  \<open>erase_locality\<close> forgets every stored locality: the address recorded at the mint and
  the \<^verbatim>\<open>ipLock\<close> rule. \<open>gate_denials\<close> lists the messages with which
  \<^verbatim>\<open>getDecryptionKey\<close> refuses a request.
\<close>

definition erase_locality :: "world \<Rightarrow> world" where
  "erase_locality w =
     w\<lparr>licenses := (\<lambda>oid. map_option (\<lambda>l. l\<lparr>buyerIp := []\<rparr>) (licenses w oid)),
       softwareColl := (\<lambda>sid. map_option
          (\<lambda>s. s\<lparr>licensingRules := (licensingRules s)\<lparr>ipLock := False\<rparr>\<rparr>) (softwareColl w sid))\<rparr>"

definition gate_denials :: "string list" where
  "gate_denials =
     [''License ID, Device ID, and Wallet Address are required.'',
      ''The server is not configured to communicate with the blockchain.'',
      ''Invalid license ID format.'',
      ''License not found in the database.'',
      ''Could not find the associated software.'',
      ''This license has been revoked and no longer exists on the blockchain.'',
      ''Could not verify license ownership on the blockchain.'',
      ''Smart contract check failed: The connected wallet is not the owner of this license NFT.'',
      ''Device mismatch. This license is not bound to this device.'',
      ''Could not find the software's decryption key or file URL.'']
     @ map (\<lambda>s. ''License is not active. Current status: '' @ status_str s @
                 ''. Contact the seller for assistance.'') [Revoked, Blocked, DeletedByUser]"

subsection \<open>An example registry\<close>

text \<open>
  One software with both rules switched on, one license of it bound to the device
  \<^verbatim>\<open>dev1\<close>, and a ledger that reports the buyer as holder (in another letter case).
\<close>

definition lid0 :: string where
  "lid0 = ''64b7f0a1c2d3e4f5a6b7c8d9''"

definition wallet0 :: string where
  "wallet0 = ''0xabcdef0123456789abcdef0123456789abcdef01''"

definition holder0 :: string where
  "holder0 = ''0xABCDEF0123456789ABCDEF0123456789ABCDEF01''"

definition software0 :: software where
  "software0 =
     \<lparr>sellerId = 1, title = ''Editor'', fileUrl = ''https://ipfs.io/ipfs/QmEditor'',
      licensingRules = \<lparr>ipLock = True, fingerprintLock = True\<rparr>,
      decryptionKey = ''00112233445566778899aabbccddeeff''\<rparr>"

definition license0 :: license where
  "license0 =
     \<lparr>softwareId = 5, buyerAddress = wallet0, tokenId = 7, buyerIp = ''203.0.113.7'',
      deviceId = ''dev1'', status = Active, reason = None, lastViolationDate = None\<rparr>"

definition registry :: "license \<Rightarrow> world" where
  "registry lic =
     \<lparr>licenses = [ObjectId lid0 \<mapsto> lic],
      softwareColl = [5 \<mapsto> software0],
      usersColl = [1 \<mapsto> \<lparr>username = ''seller'', email = ''seller@example.org''\<rparr>],
      outbox = []\<rparr>"

definition env0 :: env where
  "env0 =
     \<lparr>NEXT_PUBLIC_AMOY_RPC_URL = ''https://rpc-amoy.polygon.technology'',
      NEXT_PUBLIC_SELLER_PRIVATE_KEY = ''0x01'',
      EMAIL_SERVER_USER = ''shop@example.org'', EMAIL_SERVER_PASSWORD = ''secret''\<rparr>"

definition ledger_held :: "nat \<Rightarrow> owner_reply" where
  "ledger_held t = Holder holder0"

definition burn_fails :: "nat \<Rightarrow> tx_outcome" where
  "burn_fails t = TxThrew (JsError (Some ''ERC721: token nonexistent'') ''execution reverted'')"

definition burn_confirmed :: "nat \<Rightarrow> tx_outcome" where
  "burn_confirmed t = TxConfirmed"

subsection \<open>The ownership read, from the contract to the server\<close>

text \<open>
  The server reads the holder with \<^verbatim>\<open>contract.ownerOf(license.tokenId)\<close> through
  ethers. A holder arrives as its address in text (\<open>show_address\<close>). A revert of
  \<^verbatim>\<open>ownerOf\<close> is a custom error of the contract and arrives as an exception: when the
  ABI declares the error, its reason is the signature of the error; when it does not, the
  reason is null. \<open>burned_example\<close> is the storage of the example contract after its
  token 7 has been burned.
\<close>

definition ethers_ownerOf ::
  "(address \<Rightarrow> string) \<Rightarrow> bool \<Rightarrow> storage \<Rightarrow> nat \<Rightarrow> owner_reply" where
  "ethers_ownerOf show_address abi_declares_errors st t =
     (case ownerOf st (of_nat t) of
        Inr holder \<Rightarrow> Holder (show_address holder)
      | Inl (Revert name) \<Rightarrow>
          if abi_declares_errors then
            CallError (JsError (Some (name @ ''(uint256)''))
              (''execution reverted: '' @ name @ ''(uint256)''))
          else CallError (JsError None ''execution reverted (unknown custom error)''))"

definition burned_example :: storage where
  "burned_example =
     (case burn SoftwareLicense_update minted_example 7 of
        Inl r \<Rightarrow> minted_example
      | Inr (evs, st') \<Rightarrow> st')"

section \<open>Properties of the ledger contract\<close>

lemma ERC721_update_burn_owner:
  assumes "ERC721_update st 0 tid auth = Inr (from, evs, st')"
  shows "owners st' tid = 0 \<and> from = owners st tid"
  using assms
  by (auto simp: ERC721_update_def ownerOf_internal_def Let_def split: if_splits)

text \<open>
  C9. For an existing token, \<^verbatim>\<open>validateLicense(tokenId, locality)\<close> is false when the
  token is blocked; otherwise, when a non-empty lock is stored, it is true exactly when
  the supplied locality is the stored string, character for character; otherwise it is
  true. Both contract files decide the same way. The contract compares the two
  \<^verbatim>\<open>keccak256\<close> digests, so the statement is for a stored lock and a supplied
  locality that are not a collision of the hash.
\<close>

theorem validateLicense_decision:
  assumes "owners st tid \<noteq> 0"
    and "keccak256 (licenseIpLock st tid) = keccak256 locality \<longrightarrow>
           licenseIpLock st tid = locality"
  shows "validateLicense keccak256 st tid locality =
           Inr (if isLicenseBlocked st tid then False
                else if licenseIpLock st tid \<noteq> [] then locality = licenseIpLock st tid
                else True)
         \<and> map_sum id fst (validateLicense_ws keccak256 st tid locality) =
           validateLicense keccak256 st tid locality"
proof -
  have eq: "keccak256 (licenseIpLock st tid) = keccak256 locality \<longleftrightarrow>
      locality = licenseIpLock st tid"
    using assms(2) by auto
  have ex: "exists_internal st tid"
    using assms(1) by (simp add: exists_internal_def ownerOf_internal_def)
  have ow: "ownerOf st tid = Inr (owners st tid)"
    using assms(1) by (simp add: ownerOf_def ownerOf_internal_def)
  have c: "validateLicense keccak256 st tid locality =
      Inr (if isLicenseBlocked st tid then False
           else if licenseIpLock st tid \<noteq> [] then locality = licenseIpLock st tid
           else True)"
    using ex by (simp add: validateLicense_def Let_def eq)
  have w: "map_sum id fst (validateLicense_ws keccak256 st tid locality) =
      validateLicense keccak256 st tid locality"
    using ex ow by (simp add: validateLicense_ws_def validateLicense_def Let_def)
  from c w show ?thesis by simp
qed

theorem validateLicense_decision_witness:
  "validateLicense (\<lambda>s. s) minted_example 7 ''10.0.0.1'' = Inr True
   \<and> validateLicense (\<lambda>s. s) minted_example 7 ''10.0.0.2'' = Inr False
   \<and> validateLicense (\<lambda>s. s) minted_example 7 ''10.0.0.1 '' = Inr False
   \<and> validateLicense (\<lambda>s. s) minted_example 8 [] = Inr False
   \<and> map_sum id fst (validateLicense_ws (\<lambda>s. s) minted_example 7 ''10.0.0.1'') = Inr True"
proof -
  have i: "(\<lambda>s::string. s) (licenseIpLock minted_example t) = (\<lambda>s. s) x \<longrightarrow>
      licenseIpLock minted_example t = x" for t x
    by simp
  have o7: "owners minted_example 7 \<noteq> 0" and o8: "owners minted_example 8 \<noteq> 0"
    by (simp_all add: minted_example_def)
  have l7: "licenseIpLock minted_example 7 = ''10.0.0.1''"
    and b7: "isLicenseBlocked minted_example 7 = False"
    and b8: "isLicenseBlocked minted_example 8 = True"
    by (simp_all add: minted_example_def)
  note a = validateLicense_decision [of minted_example 7 "\<lambda>s. s", OF o7 i, unfolded l7 b7]
  note b = validateLicense_decision [of minted_example 8 "\<lambda>s. s", OF o8 i, unfolded b8]
  have 1: "validateLicense (\<lambda>s. s) minted_example 7 ''10.0.0.1'' = Inr True"
    using a [of "''10.0.0.1''", THEN conjunct1] by simp
  have 2: "validateLicense (\<lambda>s. s) minted_example 7 ''10.0.0.2'' = Inr False"
    using a [of "''10.0.0.2''", THEN conjunct1] by simp
  have 3: "validateLicense (\<lambda>s. s) minted_example 7 ''10.0.0.1 '' = Inr False"
    using a [of "''10.0.0.1 ''", THEN conjunct1] by simp
  have 4: "validateLicense (\<lambda>s. s) minted_example 8 [] = Inr False"
    using b [of "[]", THEN conjunct1] by simp
  have 5: "map_sum id fst (validateLicense_ws (\<lambda>s. s) minted_example 7 ''10.0.0.1'') = Inr True"
    using a [of "''10.0.0.1''", THEN conjunct2] 1 by simp
  from 1 2 3 4 5 show ?thesis by blast
qed

text \<open>
  C10. Once a token has a holder, every attempt to give it another non-zero holder
  reverts, in both contract files and also through the public \<^verbatim>\<open>transferFrom\<close>;
  an update that does go through leaves the token with the zero holder (a burn).
\<close>

theorem minted_token_is_not_transferable:
  assumes "owners st tid \<noteq> 0"
  shows "(to \<noteq> 0 \<longrightarrow>
            SoftwareLicense_update st to tid auth =
              Inl (Revert ''Tokens are non-transferable and can only be burned.'')
          \<and> SoftwareLicense_ws_update st to tid auth =
              Inl (Revert ''SFTL: This license token is non-transferable.'')
          \<and> transferFrom SoftwareLicense_update sender st from to tid =
              Inl (Revert ''Tokens are non-transferable and can only be burned.'')
          \<and> transferFrom SoftwareLicense_ws_update sender st from to tid =
              Inl (Revert ''SFTL: This license token is non-transferable.''))
       \<and> (\<forall>prev evs st'.
            SoftwareLicense_update st to tid auth = Inr (prev, evs, st')
            \<or> SoftwareLicense_ws_update st to tid auth = Inr (prev, evs, st')
            \<longrightarrow> to = 0 \<and> owners st' tid = 0 \<and> prev = owners st tid)"
proof -
  have ow: "ownerOf st tid = Inr (owners st tid)"
    using assms by (simp add: ownerOf_def ownerOf_internal_def)
  have r1: "SoftwareLicense_update st to tid auth =
      Inl (Revert ''Tokens are non-transferable and can only be burned.'')"
    if "to \<noteq> 0" for auth
    using assms that by (simp add: SoftwareLicense_update_def ownerOf_internal_def)
  have r2: "SoftwareLicense_ws_update st to tid auth =
      Inl (Revert ''SFTL: This license token is non-transferable.'')"
    if "to \<noteq> 0" for auth
    using assms that ow by (simp add: SoftwareLicense_ws_update_def)
  have b1: "to = 0 \<and> owners st' tid = 0 \<and> prev = owners st tid"
    if "SoftwareLicense_update st to tid auth = Inr (prev, evs, st')" for prev evs st'
  proof (cases "to = 0")
    case True
    with that assms have "ERC721_update st 0 tid auth = Inr (prev, evs, st')"
      by (simp add: SoftwareLicense_update_def ownerOf_internal_def)
    with True show ?thesis by (simp add: ERC721_update_burn_owner)
  next
    case False
    with r1 that show ?thesis by simp
  qed
  have b2: "to = 0 \<and> owners st' tid = 0 \<and> prev = owners st tid"
    if "SoftwareLicense_ws_update st to tid auth = Inr (prev, evs, st')" for prev evs st'
  proof (cases "to = 0")
    case True
    with that assms ow have "ERC721_update st 0 tid auth = Inr (prev, evs, st')"
      by (simp add: SoftwareLicense_ws_update_def)
    with True show ?thesis by (simp add: ERC721_update_burn_owner)
  next
    case False
    with r2 that show ?thesis by simp
  qed
  have t1: "transferFrom SoftwareLicense_update sender st from to tid =
      Inl (Revert ''Tokens are non-transferable and can only be burned.'')"
    if "to \<noteq> 0"
    using that r1 [OF that, of sender] by (simp add: transferFrom_def)
  have t2: "transferFrom SoftwareLicense_ws_update sender st from to tid =
      Inl (Revert ''SFTL: This license token is non-transferable.'')"
    if "to \<noteq> 0"
    using that r2 [OF that, of sender] by (simp add: transferFrom_def)
  show ?thesis
    using r1 [of auth] r2 [of auth] t1 t2 b1 b2 by blast
qed

theorem minted_token_is_not_transferable_witness:
  "SoftwareLicense_update minted_example 0xDEF 7 0xABC =
     Inl (Revert ''Tokens are non-transferable and can only be burned.'')
   \<and> SoftwareLicense_ws_update minted_example 0xDEF 7 0xABC =
     Inl (Revert ''SFTL: This license token is non-transferable.'')
   \<and> transferFrom SoftwareLicense_update 0xABC minted_example 0xABC 0xDEF 7 =
     Inl (Revert ''Tokens are non-transferable and can only be burned.'')
   \<and> (case burn SoftwareLicense_update minted_example 7 of
        Inl r \<Rightarrow> False
      | Inr (evs, st') \<Rightarrow> owners st' 7 = 0 \<and> evs = [Transfer 0xABC 0 7])"
proof -
  have o7: "owners minted_example 7 \<noteq> 0"
    by (simp add: minted_example_def)
  have neq: "(0xDEF :: address) \<noteq> 0" by simp
  have "case burn SoftwareLicense_update minted_example 7 of
        Inl r \<Rightarrow> False
      | Inr (evs, st') \<Rightarrow> owners st' 7 = 0 \<and> evs = [Transfer 0xABC 0 7]"
    by (simp add: burn_def SoftwareLicense_update_def ERC721_update_def
        ownerOf_internal_def minted_example_def Let_def)
  then show ?thesis
    using minted_token_is_not_transferable [OF o7, of "0xDEF" "0xABC" "0xABC" "0xABC"] neq
    by simp
qed

section \<open>Properties of the license registry\<close>

subsection \<open>Characters and strings\<close>

lemma char_of_nat_eq_iff:
  "char_of (n::nat) = c \<longleftrightarrow> n mod 256 = of_char c"
  by (simp add: char_of_eq_iff take_bit_eq_mod)

lemma char_eq_char_of_nat_iff:
  "c = char_of (n::nat) \<longleftrightarrow> n mod 256 = of_char c"
  using char_of_nat_eq_iff [of n c] by blast

lemma toLowerChar_eq_iff: "toLowerChar a = toLowerChar b \<longleftrightarrow> sameLetter a b"
proof -
  have la: "(of_char a :: nat) < 256" and lb: "(of_char b :: nat) < 256"
    by simp_all
  have inj: "(of_char a :: nat) = of_char b \<longleftrightarrow> a = b" by simp
  show ?thesis
    using la lb inj
    by (auto simp: toLowerChar_def sameLetter_def isUpper_def char_of_nat_eq_iff char_eq_char_of_nat_iff)
qed

lemma toLowerCase_eq_iff: "toLowerCase s = toLowerCase t \<longleftrightarrow> equalIgnoringCase s t"
  unfolding toLowerCase_def equalIgnoringCase_def
proof (induction s arbitrary: t)
  case Nil
  then show ?case by simp
next
  case (Cons a s)
  then show ?case by (cases t) (simp_all add: toLowerChar_eq_iff)
qed

subsection \<open>The gate, stage by stage\<close>

lemma updateOne_license_found:
  "licenses w oid = Some l \<Longrightarrow>
     updateOne_license w oid change =
       (if change l = l then 0 else 1, w\<lparr>licenses := (licenses w)(oid \<mapsto> change l)\<rparr>)"
  by (simp add: updateOne_license_def)

text \<open>The gate, once the request has reached the ownership read.\<close>

lemma getDecryptionKey_at_ledger:
  assumes "licenseId \<noteq> []" and "device \<noteq> []" and "walletAddress \<noteq> []"
    and "NEXT_PUBLIC_AMOY_RPC_URL e \<noteq> []" and "ObjectId_isValid licenseId"
    and "licenses w (ObjectId licenseId) = Some lic" and "status lic = Active"
    and "softwareColl w (softwareId lic) = Some sw"
  shows "getDecryptionKey e chain now w licenseId device walletAddress =
     (case chain (tokenId lic) of
        CallError contractError \<Rightarrow>
          if reports_burned contractError then
            (failure ''This license has been revoked and no longer exists on the blockchain.'',
             w\<lparr>licenses := (licenses w)(ObjectId licenseId \<mapsto>
                  lic\<lparr>status := Revoked, reason := Some ''Token does not exist (burned)'',
                      lastViolationDate := Some now\<rparr>)\<rparr>)
          else (failure ''Could not verify license ownership on the blockchain.'', w)
      | Holder ownerOfToken \<Rightarrow>
          if toLowerCase ownerOfToken \<noteq> toLowerCase walletAddress then
            (failure ''Smart contract check failed: The connected wallet is not the owner of this license NFT.'', w)
          else if fingerprintLock (licensingRules sw) \<and>
                  deviceId lic \<noteq> [] \<and> deviceId lic \<noteq> device then
            (failure ''Device mismatch. This license is not bound to this device.'', w)
          else if decryptionKey sw = [] \<or> fileUrl sw = [] then
            (failure ''Could not find the software's decryption key or file URL.'', w)
          else
            (\<lparr>success = True, message = ''Key retrieved successfully.'',
              key = Some (decryptionKey sw), keyFileUrl = Some (fileUrl sw)\<rparr>, w))"
  using assms
  by (simp add: getDecryptionKey_def updateOne_license_found split: owner_reply.split)

lemma getDecryptionKey_before_ledger:
  assumes "licenseId = [] \<or> device = [] \<or> walletAddress = []
      \<or> NEXT_PUBLIC_AMOY_RPC_URL e = [] \<or> \<not> ObjectId_isValid licenseId
      \<or> licenses w (ObjectId licenseId) = None
      \<or> (\<exists>lic. licenses w (ObjectId licenseId) = Some lic \<and>
            (status lic \<noteq> Active \<or> softwareColl w (softwareId lic) = None))"
  shows "\<not> success (fst (getDecryptionKey e chain now w licenseId device walletAddress))
       \<and> snd (getDecryptionKey e chain now w licenseId device walletAddress) = w"
proof (cases "licenses w (ObjectId licenseId)")
  case None
  then show ?thesis by (simp add: getDecryptionKey_def failure_def)
next
  case (Some lic)
  show ?thesis
  proof (cases "status lic = Active")
    case True
    with Some assms have "licenseId = [] \<or> device = [] \<or> walletAddress = []
      \<or> NEXT_PUBLIC_AMOY_RPC_URL e = [] \<or> \<not> ObjectId_isValid licenseId
      \<or> softwareColl w (softwareId lic) = None" by auto
    with Some True show ?thesis
      by (auto simp: getDecryptionKey_def failure_def)
  next
    case False
    with Some show ?thesis by (simp add: getDecryptionKey_def failure_def)
  qed
qed

lemma getDecryptionKey_world:
  "snd (getDecryptionKey e chain now w lid dev wal) = w \<or>
   (\<exists>lic. licenses w (ObjectId lid) = Some lic \<and> status lic = Active \<and>
      snd (getDecryptionKey e chain now w lid dev wal) =
        w\<lparr>licenses := (licenses w)(ObjectId lid \<mapsto>
             lic\<lparr>status := Revoked, reason := Some ''Token does not exist (burned)'',
                 lastViolationDate := Some now\<rparr>)\<rparr>)"
proof (cases "lid \<noteq> [] \<and> dev \<noteq> [] \<and> wal \<noteq> [] \<and> NEXT_PUBLIC_AMOY_RPC_URL e \<noteq> []
    \<and> ObjectId_isValid lid
    \<and> (\<exists>lic sw. licenses w (ObjectId lid) = Some lic \<and> status lic = Active
          \<and> softwareColl w (softwareId lic) = Some sw)")
  case True
  then obtain lic sw where a: "lid \<noteq> []" "dev \<noteq> []" "wal \<noteq> []"
      "NEXT_PUBLIC_AMOY_RPC_URL e \<noteq> []" "ObjectId_isValid lid"
      "licenses w (ObjectId lid) = Some lic" "status lic = Active"
      "softwareColl w (softwareId lic) = Some sw" by blast
  show ?thesis
    unfolding getDecryptionKey_at_ledger [OF a]
    using a(6,7) by (simp split: owner_reply.split)
next
  case False
  then have "lid = [] \<or> dev = [] \<or> wal = []
      \<or> NEXT_PUBLIC_AMOY_RPC_URL e = [] \<or> \<not> ObjectId_isValid lid
      \<or> licenses w (ObjectId lid) = None
      \<or> (\<exists>lic. licenses w (ObjectId lid) = Some lic \<and>
            (status lic \<noteq> Active \<or> softwareColl w (softwareId lic) = None))"
    by (cases "licenses w (ObjectId lid)") auto
  from getDecryptionKey_before_ledger [OF this] show ?thesis by simp
qed

lemma erase_locality_lookup:
  "licenses (erase_locality w) oid = map_option (\<lambda>l. l\<lparr>buyerIp := []\<rparr>) (licenses w oid)"
  "softwareColl (erase_locality w) sid =
     map_option (\<lambda>s. s\<lparr>licensingRules := (licensingRules s)\<lparr>ipLock := False\<rparr>\<rparr>) (softwareColl w sid)"
  by (simp_all add: erase_locality_def)

lemma getDecryptionKey_response_cases:
  "fst (getDecryptionKey e chain now w lid dev wal) =
     (if lid = [] \<or> dev = [] \<or> wal = [] then
        failure ''License ID, Device ID, and Wallet Address are required.''
      else if NEXT_PUBLIC_AMOY_RPC_URL e = [] then
        failure ''The server is not configured to communicate with the blockchain.''
      else if \<not> ObjectId_isValid lid then failure ''Invalid license ID format.''
      else
        case licenses w (ObjectId lid) of
          None \<Rightarrow> failure ''License not found in the database.''
        | Some lic \<Rightarrow>
            if status lic \<noteq> Active then
              failure (''License is not active. Current status: '' @ status_str (status lic) @
                 ''. Contact the seller for assistance.'')
            else
              case softwareColl w (softwareId lic) of
                None \<Rightarrow> failure ''Could not find the associated software.''
              | Some sw \<Rightarrow>
                  (case chain (tokenId lic) of
                     CallError contractError \<Rightarrow>
                       if reports_burned contractError then
                         failure ''This license has been revoked and no longer exists on the blockchain.''
                       else failure ''Could not verify license ownership on the blockchain.''
                   | Holder ownerOfToken \<Rightarrow>
                       if toLowerCase ownerOfToken \<noteq> toLowerCase wal then
                         failure ''Smart contract check failed: The connected wallet is not the owner of this license NFT.''
                       else if fingerprintLock (licensingRules sw) \<and>
                               deviceId lic \<noteq> [] \<and> deviceId lic \<noteq> dev then
                         failure ''Device mismatch. This license is not bound to this device.''
                       else if decryptionKey sw = [] \<or> fileUrl sw = [] then
                         failure ''Could not find the software's decryption key or file URL.''
                       else
                         \<lparr>success = True, message = ''Key retrieved successfully.'',
                           key = Some (decryptionKey sw), keyFileUrl = Some (fileUrl sw)\<rparr>))"
  unfolding getDecryptionKey_def if_distrib [of fst] option.case_distrib [of fst]
    owner_reply.case_distrib [of fst] fst_conv
  by (rule refl)

lemma erased_fields:
  "status (lic\<lparr>buyerIp := x\<rparr>) = status lic"
  "softwareId (lic\<lparr>buyerIp := x\<rparr>) = softwareId lic"
  "tokenId (lic\<lparr>buyerIp := x\<rparr>) = tokenId lic"
  "deviceId (lic\<lparr>buyerIp := x\<rparr>) = deviceId lic"
  "fingerprintLock (licensingRules (sw\<lparr>licensingRules := (licensingRules sw)\<lparr>ipLock := b\<rparr>\<rparr>)) =
     fingerprintLock (licensingRules sw)"
  "decryptionKey (sw\<lparr>licensingRules := r\<rparr>) = decryptionKey sw"
  "fileUrl (sw\<lparr>licensingRules := r\<rparr>) = fileUrl sw"
  by simp_all

lemma getDecryptionKey_erase_locality: "fst (getDecryptionKey e contract_ownerOf now (erase_locality w) licenseId device walletAddress) =
     fst (getDecryptionKey e contract_ownerOf now w licenseId device walletAddress)"
proof (cases "licenses w (ObjectId licenseId)")
  case None
  show ?thesis
    unfolding getDecryptionKey_response_cases erase_locality_lookup None option.map option.case
    by (rule refl)
next
  case lic: (Some lic)
  show ?thesis
  proof (cases "softwareColl w (softwareId lic)")
    case None
    show ?thesis
      unfolding getDecryptionKey_response_cases erase_locality_lookup lic option.map option.case
        erased_fields None
      by (rule refl)
  next
    case sw: (Some sw)
    show ?thesis
      unfolding getDecryptionKey_response_cases erase_locality_lookup lic option.map option.case
        erased_fields sw
      by (rule refl)
  qed
qed
lemma gate_denials_members:
  "''License ID, Device ID, and Wallet Address are required.'' \<in> set gate_denials"
  "''The server is not configured to communicate with the blockchain.'' \<in> set gate_denials"
  "''Invalid license ID format.'' \<in> set gate_denials"
  "''License not found in the database.'' \<in> set gate_denials"
  "''Could not find the associated software.'' \<in> set gate_denials"
  "''This license has been revoked and no longer exists on the blockchain.'' \<in> set gate_denials"
  "''Could not verify license ownership on the blockchain.'' \<in> set gate_denials"
  "''Smart contract check failed: The connected wallet is not the owner of this license NFT.'' \<in> set gate_denials"
  "''Device mismatch. This license is not bound to this device.'' \<in> set gate_denials"
  "''Could not find the software's decryption key or file URL.'' \<in> set gate_denials"
  by (simp_all add: gate_denials_def)

lemma gate_denials_not_active:
  "st \<noteq> Active \<Longrightarrow>
     ''License is not active. Current status: '' @ status_str st @
       ''. Contact the seller for assistance.'' \<in> set gate_denials"
  by (cases st) (simp_all add: gate_denials_def)

lemma getDecryptionKey_denials: "success (fst (getDecryptionKey e contract_ownerOf now w licenseId device walletAddress))
      \<or> message (fst (getDecryptionKey e contract_ownerOf now w licenseId device walletAddress))
          \<in> set gate_denials"
proof -
  define ok where "ok r \<longleftrightarrow> success r \<or> message r \<in> set gate_denials" for r :: response
  have ok_if: "ok (if c then x else y)" if "c \<Longrightarrow> ok x" and "\<not> c \<Longrightarrow> ok y" for c x y
    using that by simp
  have ok_opt: "ok (case v of None \<Rightarrow> x | Some z \<Rightarrow> f z)"
    if "ok x" and "\<And>z. ok (f z)" for v :: "'z option" and x f
    using that by (cases v) simp_all
  have ok_own: "ok (case v of Holder h \<Rightarrow> f h | CallError c \<Rightarrow> g c)"
    if "\<And>h. ok (f h)" and "\<And>c. ok (g c)" for v f g
    using that by (cases v) simp_all
  have ok_fail: "ok (failure m)" if "m \<in> set gate_denials" for m
    using that by (simp add: ok_def failure_def)
  have ok_key: "ok \<lparr>success = True, message = m, key = k, keyFileUrl = u\<rparr>" for m k u
    by (simp add: ok_def)
  have "ok (fst (getDecryptionKey e contract_ownerOf now w licenseId device walletAddress))"
    unfolding getDecryptionKey_response_cases
    by (intro ok_if ok_opt ok_own ok_fail ok_key gate_denials_members gate_denials_not_active)
  then show ?thesis by (simp add: ok_def)
qed

lemma getDecryptionKey_key_only_with_success:
  "success (fst (getDecryptionKey e contract_ownerOf now w licenseId device walletAddress))
      \<or> key (fst (getDecryptionKey e contract_ownerOf now w licenseId device walletAddress)) = None"
proof -
  define ok where "ok r \<longleftrightarrow> success r \<or> key r = None" for r :: response
  have ok_if: "ok (if c then x else y)" if "c \<Longrightarrow> ok x" and "\<not> c \<Longrightarrow> ok y" for c x y
    using that by simp
  have ok_opt: "ok (case v of None \<Rightarrow> x | Some z \<Rightarrow> f z)"
    if "ok x" and "\<And>z. ok (f z)" for v :: "'z option" and x f
    using that by (cases v) simp_all
  have ok_own: "ok (case v of Holder h \<Rightarrow> f h | CallError c \<Rightarrow> g c)"
    if "\<And>h. ok (f h)" and "\<And>c. ok (g c)" for v f g
    using that by (cases v) simp_all
  have ok_fail: "ok (failure m)" for m
    by (simp add: ok_def failure_def)
  have ok_key: "ok \<lparr>success = True, message = m, key = k, keyFileUrl = u\<rparr>" for m k u
    by (simp add: ok_def)
  have "ok (fst (getDecryptionKey e contract_ownerOf now w licenseId device walletAddress))"
    unfolding getDecryptionKey_response_cases
    by (intro ok_if ok_opt ok_own ok_fail ok_key)
  then show ?thesis by (simp add: ok_def)
qed

lemma getDecryptionKey_only_change:
  assumes "licenses w (ObjectId licenseId) = Some lic"
  shows "snd (getDecryptionKey e contract_ownerOf now w licenseId device walletAddress) = w
     \<or> (status lic = Active
        \<and> (\<exists>err. contract_ownerOf (tokenId lic) = CallError err \<and> reports_burned err)
        \<and> snd (getDecryptionKey e contract_ownerOf now w licenseId device walletAddress) =
            w\<lparr>licenses := (licenses w)(ObjectId licenseId \<mapsto>
                 lic\<lparr>status := Revoked, reason := Some ''Token does not exist (burned)'',
                     lastViolationDate := Some now\<rparr>)\<rparr>)"
proof (cases "licenseId \<noteq> [] \<and> device \<noteq> [] \<and> walletAddress \<noteq> [] \<and>
    NEXT_PUBLIC_AMOY_RPC_URL e \<noteq> [] \<and> ObjectId_isValid licenseId \<and> status lic = Active
    \<and> (\<exists>sw. softwareColl w (softwareId lic) = Some sw)")
  case True
  then obtain sw where a: "licenseId \<noteq> []" "device \<noteq> []" "walletAddress \<noteq> []"
      "NEXT_PUBLIC_AMOY_RPC_URL e \<noteq> []" "ObjectId_isValid licenseId" "status lic = Active"
      "softwareColl w (softwareId lic) = Some sw" by blast
  show ?thesis
  proof (cases "contract_ownerOf (tokenId lic)")
    case (Holder h)
    then show ?thesis
      unfolding getDecryptionKey_at_ledger [OF a(1-5) assms a(6,7)] by simp
  next
    case (CallError err)
    then show ?thesis
      unfolding getDecryptionKey_at_ledger [OF a(1-5) assms a(6,7)] using a(6) by simp
  qed
next
  case False
  with assms have "licenseId = [] \<or> device = [] \<or> walletAddress = []
      \<or> NEXT_PUBLIC_AMOY_RPC_URL e = [] \<or> \<not> ObjectId_isValid licenseId
      \<or> licenses w (ObjectId licenseId) = None
      \<or> (\<exists>lic. licenses w (ObjectId licenseId) = Some lic \<and>
            (status lic \<noteq> Active \<or> softwareColl w (softwareId lic) = None))"
    by (cases "softwareColl w (softwareId lic)") auto
  from getDecryptionKey_before_ledger [OF this] show ?thesis by simp
qed

text \<open>
  The two ways the gate treats a failed ownership read. When the reason carries the words
  \<^verbatim>\<open>invalid token ID\<close> the license is revoked in the registry; any other failure is
  answered as a fault of the ledger and the registry is left as it was.
\<close>

lemma getDecryptionKey_recognised_burn:
  assumes "licenseId \<noteq> []" and "device \<noteq> []" and "walletAddress \<noteq> []"
    and "NEXT_PUBLIC_AMOY_RPC_URL e \<noteq> []" and "ObjectId_isValid licenseId"
    and "licenses w (ObjectId licenseId) = Some lic" and "status lic = Active"
    and "softwareColl w (softwareId lic) = Some sw"
    and "contract_ownerOf (tokenId lic) = CallError err" and "reports_burned err"
  shows "getDecryptionKey e contract_ownerOf now w licenseId device walletAddress =
     (failure ''This license has been revoked and no longer exists on the blockchain.'',
      w\<lparr>licenses := (licenses w)(ObjectId licenseId \<mapsto>
           lic\<lparr>status := Revoked, reason := Some ''Token does not exist (burned)'',
               lastViolationDate := Some now\<rparr>)\<rparr>)"
  unfolding getDecryptionKey_at_ledger [OF assms(1-8)]
  using assms(9,10) by simp

lemma getDecryptionKey_unrecognised_error:
  assumes "licenseId \<noteq> []" and "device \<noteq> []" and "walletAddress \<noteq> []"
    and "NEXT_PUBLIC_AMOY_RPC_URL e \<noteq> []" and "ObjectId_isValid licenseId"
    and "licenses w (ObjectId licenseId) = Some lic" and "status lic = Active"
    and "softwareColl w (softwareId lic) = Some sw"
    and "contract_ownerOf (tokenId lic) = CallError err" and "\<not> reports_burned err"
  shows "getDecryptionKey e contract_ownerOf now w licenseId device walletAddress =
     (failure ''Could not verify license ownership on the blockchain.'', w)"
  unfolding getDecryptionKey_at_ledger [OF assms(1-8)]
  using assms(9,10) by simp

subsection \<open>A revoked license under the registry calls\<close>

lemma revoked_in_update:
  assumes "revoked_in w oid" and "licenses w k = Some l" and "status l' = Revoked \<or> status l' = status l"
  shows "revoked_in (w\<lparr>licenses := (licenses w)(k \<mapsto> l')\<rparr>) oid"
  using assms by (auto simp: revoked_in_def split: option.splits)

lemma reactivateLicense_revoked:
  assumes "revoked_in w (ObjectId licenseId)"
  shows "\<not> success (fst (reactivateLicense w licenseId)) \<and> snd (reactivateLicense w licenseId) = w"
  using assms
  by (auto simp: reactivateLicense_def revoked_in_def failure_def split: option.splits)

lemma reactivateLicense_other:
  assumes "revoked_in w oid" and "ObjectId licenseId \<noteq> oid"
  shows "revoked_in (snd (reactivateLicense w licenseId)) oid"
  using assms
  by (auto simp: reactivateLicense_def revoked_in_def updateOne_license_found split: option.splits)

lemma getDecryptionKey_revoked:
  assumes "revoked_in w (ObjectId licenseId)"
  shows "\<not> success (fst (getDecryptionKey e chain now w licenseId device walletAddress))
       \<and> snd (getDecryptionKey e chain now w licenseId device walletAddress) = w"
proof -
  from assms obtain lic where "licenses w (ObjectId licenseId) = Some lic" "status lic = Revoked"
    by (auto simp: revoked_in_def split: option.splits)
  then have "\<exists>lic. licenses w (ObjectId licenseId) = Some lic \<and>
            (status lic \<noteq> Active \<or> softwareColl w (softwareId lic) = None)" by auto
  then show ?thesis by (intro getDecryptionKey_before_ledger) blast
qed

lemma getDecryptionKey_keeps_revoked:
  assumes "revoked_in w oid"
  shows "revoked_in (snd (getDecryptionKey e chain now w licenseId device walletAddress)) oid"
proof -
  have "revoked_in (w\<lparr>licenses := (licenses w)(ObjectId licenseId \<mapsto>
             lic\<lparr>status := Revoked, reason := Some ''Token does not exist (burned)'',
                 lastViolationDate := Some now\<rparr>)\<rparr>) oid"
    if "licenses w (ObjectId licenseId) = Some lic" for lic
    by (rule revoked_in_update [OF assms that]) simp
  then show ?thesis
    using getDecryptionKey_world [of e chain now w licenseId device walletAddress] assms
    by auto
qed

lemma bindDeviceToLicense_keeps_revoked:
  assumes "revoked_in w oid"
  shows "revoked_in (snd (bindDeviceToLicense w licenseId device)) oid"
proof (cases "licenses w (ObjectId licenseId)")
  case None
  with assms show ?thesis by (simp add: bindDeviceToLicense_def)
next
  case (Some lic)
  have "revoked_in (w\<lparr>licenses := (licenses w)(ObjectId licenseId \<mapsto> lic\<lparr>deviceId := device\<rparr>)\<rparr>) oid"
    by (rule revoked_in_update [OF assms Some]) simp
  with assms Some show ?thesis
    by (simp add: bindDeviceToLicense_def updateOne_license_found)
qed

lemma revokeLicense_keeps_revoked:
  assumes "revoked_in w oid"
  shows "revoked_in (snd (revokeLicense e burned store w licenseId)) oid"
proof (cases "licenses w (ObjectId licenseId)")
  case None
  with assms show ?thesis by (simp add: revokeLicense_def)
next
  case (Some lic)
  have "revoked_in (w\<lparr>licenses := (licenses w)(ObjectId licenseId \<mapsto>
          lic\<lparr>status := Revoked, reason := Some ''Seller revoked''\<rparr>)\<rparr>) oid"
    by (rule revoked_in_update [OF assms Some]) simp
  with assms Some show ?thesis
    by (simp add: revokeLicense_def updateOne_license_found
        split: tx_outcome.split write_outcome.split)
qed

lemma perform_keeps_revoked:
  assumes "revoked_in w oid"
  shows "revoked_in (snd (perform w c)) oid"
proof (cases c)
  case (Reactivate licenseId)
  show ?thesis
  proof (cases "ObjectId licenseId = oid")
    case True
    with assms Reactivate show ?thesis by (simp add: reactivateLicense_revoked)
  next
    case False
    with assms Reactivate show ?thesis by (simp add: reactivateLicense_other)
  qed
next
  case GetKey
  with assms show ?thesis by (simp add: getDecryptionKey_keeps_revoked)
next
  case Bind
  with assms show ?thesis by (simp add: bindDeviceToLicense_keeps_revoked)
next
  case Revoke
  with assms show ?thesis by (simp add: revokeLicense_keeps_revoked)
qed

lemma perform_denies_revoked:
  assumes "revoked_in w oid" and "asks_release oid c"
  shows "\<not> success (fst (perform w c))"
  using assms
  by (cases c) (auto simp: reactivateLicense_revoked getDecryptionKey_revoked)

text \<open>
  Under any sequence of calls of \<^verbatim>\<open>reactivateLicense\<close>, \<^verbatim>\<open>getDecryptionKey\<close>,
  \<^verbatim>\<open>bindDeviceToLicense\<close> and \<^verbatim>\<open>revokeLicense\<close>, on any licenses and with any
  answers of the ledger, a revoked license stays revoked, and every reactivation or key
  request for it in the sequence is refused.
\<close>

lemma revoked_stays_revoked_under_registry_calls:
  assumes "revoked_in w oid"
  shows "revoked_in (snd (run w cs)) oid
       \<and> list_all2 (\<lambda>c r. asks_release oid c \<longrightarrow> \<not> success r) cs (fst (run w cs))"
  using assms
proof (induction cs arbitrary: w)
  case Nil
  then show ?case by simp
next
  case (Cons c cs)
  have k: "revoked_in (snd (perform w c)) oid"
    using Cons.prems by (rule perform_keeps_revoked)
  have d: "asks_release oid c \<longrightarrow> \<not> success (fst (perform w c))"
    using Cons.prems by (simp add: perform_denies_revoked)
  from Cons.IH [OF k] d show ?case
    by (simp add: split_def Let_def)
qed

subsection \<open>Facts about the example\<close>

lemma lid0_valid: "lid0 \<noteq> []" "ObjectId_isValid lid0"
  by (simp_all add: lid0_def ObjectId_isValid_def isHexDigit_def)

lemma wallet0_holder0:
  "wallet0 \<noteq> []" "toLowerCase holder0 = toLowerCase wallet0" "toLowerCase wallet0 = wallet0"
  by (simp_all add: wallet0_def holder0_def toLowerCase_def toLowerChar_def isUpper_def
      char_of_nat_eq_iff)

lemma registry_lookup:
  "licenses (registry lic) (ObjectId lid0) = Some lic"
  "softwareColl (registry lic) 5 = Some software0"
  "outbox (registry lic) = []"
  by (simp_all add: registry_def)

lemma env0_rpc: "NEXT_PUBLIC_AMOY_RPC_URL env0 \<noteq> []" "NEXT_PUBLIC_SELLER_PRIVATE_KEY env0 \<noteq> []"
  by (simp_all add: env0_def)

lemma license0_fields:
  "softwareId license0 = 5" "status license0 = Active" "deviceId license0 = ''dev1''"
  "tokenId license0 = 7" "buyerAddress license0 = wallet0"
  by (simp_all add: license0_def)

lemma software0_fields:
  "fingerprintLock (licensingRules software0)" "ipLock (licensingRules software0)"
  "decryptionKey software0 \<noteq> []" "fileUrl software0 \<noteq> []"
  by (simp_all add: software0_def)

lemma example_request:
  "getDecryptionKey env0 ledger_held now (registry license0) lid0 device wallet0 =
     (if ''dev1'' \<noteq> device then
        (failure ''Device mismatch. This license is not bound to this device.'', registry license0)
      else
        (\<lparr>success = True, message = ''Key retrieved successfully.'',
          key = Some (decryptionKey software0), keyFileUrl = Some (fileUrl software0)\<rparr>,
         registry license0))"
  if "device \<noteq> []"
proof -
  have sw0: "softwareColl (registry license0) (softwareId license0) = Some software0"
    by (simp add: registry_lookup license0_fields)
  show ?thesis
    unfolding getDecryptionKey_at_ledger [OF lid0_valid(1) that wallet0_holder0(1) env0_rpc(1)
        lid0_valid(2) registry_lookup(1) license0_fields(2) sw0]
    by (simp add: ledger_held_def wallet0_holder0 software0_fields license0_fields)
qed

lemma revoked_example: "revoked_in (registry (license0\<lparr>status := Revoked\<rparr>)) (ObjectId lid0)"
  by (simp add: revoked_in_def registry_lookup)

subsection \<open>The claims about the registry\<close>

text \<open>
  C1. As stated the claim fails: on a device mismatch \<^verbatim>\<open>getDecryptionKey\<close> denies and
  does nothing else. What holds, for a license whose software has
  \<^verbatim>\<open>fingerprintLock\<close> and whose stored device id is non-empty and differs from the
  supplied one: every call is denied and returns no key; no mail is sent; the call never
  makes the license blocked (the status afterwards is the status before, or \<open>Revoked\<close>);
  the only change the call can make to the registry is the write of \<open>Revoked\<close> for an
  active license whose ownership read fails with the reason the code takes for a burned
  token; and when the request reaches the device check (its arguments are present, the
  server has its RPC address, the license is active and the ledger reports a holder that
  is the requester up to letter case), the answer is the device-mismatch message and the
  registry is left exactly as it was.
\<close>

theorem device_mismatch_denies_without_blocking:
  assumes "licenses w (ObjectId licenseId) = Some lic"
    and "softwareColl w (softwareId lic) = Some sw"
    and "fingerprintLock (licensingRules sw)"
    and "deviceId lic \<noteq> []" and "deviceId lic \<noteq> device"
  shows "\<not> success (fst (getDecryptionKey e contract_ownerOf now w licenseId device walletAddress))
     \<and> key (fst (getDecryptionKey e contract_ownerOf now w licenseId device walletAddress)) = None
     \<and> outbox (snd (getDecryptionKey e contract_ownerOf now w licenseId device walletAddress)) =
         outbox w
     \<and> (map_option status
          (licenses (snd (getDecryptionKey e contract_ownerOf now w licenseId device walletAddress))
             (ObjectId licenseId)) = Some (status lic)
        \<or> map_option status
          (licenses (snd (getDecryptionKey e contract_ownerOf now w licenseId device walletAddress))
             (ObjectId licenseId)) = Some Revoked)
     \<and> (snd (getDecryptionKey e contract_ownerOf now w licenseId device walletAddress) = w
        \<or> (status lic = Active
           \<and> (\<exists>err. contract_ownerOf (tokenId lic) = CallError err \<and> reports_burned err)
           \<and> snd (getDecryptionKey e contract_ownerOf now w licenseId device walletAddress) =
               w\<lparr>licenses := (licenses w)(ObjectId licenseId \<mapsto>
                    lic\<lparr>status := Revoked, reason := Some ''Token does not exist (burned)'',
                        lastViolationDate := Some now\<rparr>)\<rparr>))
     \<and> (licenseId \<noteq> [] \<and> device \<noteq> [] \<and> walletAddress \<noteq> [] \<and>
         NEXT_PUBLIC_AMOY_RPC_URL e \<noteq> [] \<and> ObjectId_isValid licenseId \<and>
         status lic = Active \<and>
         (\<exists>holder. contract_ownerOf (tokenId lic) = Holder holder \<and>
            toLowerCase holder = toLowerCase walletAddress)
         \<longrightarrow> getDecryptionKey e contract_ownerOf now w licenseId device walletAddress =
               (failure ''Device mismatch. This license is not bound to this device.'', w))"
    (is "?deny \<and> ?nokey \<and> ?mail \<and> ?stat \<and> ?change \<and> ?exact")
proof -
  let ?r = "getDecryptionKey e contract_ownerOf now w licenseId device walletAddress"
  have deny: ?deny
  proof (cases "licenseId \<noteq> [] \<and> device \<noteq> [] \<and> walletAddress \<noteq> [] \<and>
         NEXT_PUBLIC_AMOY_RPC_URL e \<noteq> [] \<and> ObjectId_isValid licenseId \<and> status lic = Active")
    case True
    then have a: "licenseId \<noteq> []" "device \<noteq> []" "walletAddress \<noteq> []"
      "NEXT_PUBLIC_AMOY_RPC_URL e \<noteq> []" "ObjectId_isValid licenseId" "status lic = Active"
      by blast+
    show ?thesis
      unfolding getDecryptionKey_at_ledger [OF a(1-5) assms(1) a(6) assms(2)]
      using assms(3-5) by (simp add: failure_def split: owner_reply.split)
  next
    case False
    with assms(1) have "licenseId = [] \<or> device = [] \<or> walletAddress = []
      \<or> NEXT_PUBLIC_AMOY_RPC_URL e = [] \<or> \<not> ObjectId_isValid licenseId
      \<or> licenses w (ObjectId licenseId) = None
      \<or> (\<exists>lic. licenses w (ObjectId licenseId) = Some lic \<and>
            (status lic \<noteq> Active \<or> softwareColl w (softwareId lic) = None))" by auto
    from getDecryptionKey_before_ledger [OF this] show ?thesis by simp
  qed
  have nokey: ?nokey
    using deny
      getDecryptionKey_key_only_with_success [of e contract_ownerOf now w licenseId device walletAddress]
    by blast
  have change: ?change
    by (rule getDecryptionKey_only_change [OF assms(1)])
  have mail: ?mail using change by auto
  have stat: ?stat using change assms(1) by auto
  have exact: ?exact
  proof
    assume h: "licenseId \<noteq> [] \<and> device \<noteq> [] \<and> walletAddress \<noteq> [] \<and>
         NEXT_PUBLIC_AMOY_RPC_URL e \<noteq> [] \<and> ObjectId_isValid licenseId \<and>
         status lic = Active \<and>
         (\<exists>holder. contract_ownerOf (tokenId lic) = Holder holder \<and>
            toLowerCase holder = toLowerCase walletAddress)"
    then have a: "licenseId \<noteq> []" "device \<noteq> []" "walletAddress \<noteq> []"
      "NEXT_PUBLIC_AMOY_RPC_URL e \<noteq> []" "ObjectId_isValid licenseId" "status lic = Active"
      by blast+
    from h obtain holder where o: "contract_ownerOf (tokenId lic) = Holder holder"
      "toLowerCase holder = toLowerCase walletAddress" by blast
    show "?r = (failure ''Device mismatch. This license is not bound to this device.'', w)"
      unfolding getDecryptionKey_at_ledger [OF a(1-5) assms(1) a(6) assms(2)]
      using assms(3-5) o by simp
  qed
  from deny nokey mail stat change exact show ?thesis by blast
qed

theorem device_mismatch_denies_without_blocking_witness:
  "getDecryptionKey env0 ledger_held 0 (registry license0) lid0 ''dev2'' wallet0 =
     (failure ''Device mismatch. This license is not bound to this device.'', registry license0)
   \<and> key (fst (getDecryptionKey env0 ledger_held 0 (registry license0) lid0 ''dev2'' wallet0)) = None
   \<and> \<not> success (fst (getDecryptionKey env0 (ethers_ownerOf (\<lambda>a. holder0) True burned_example) 0
            (registry license0) lid0 ''dev2'' wallet0))"
proof -
  have sw0: "softwareColl (registry license0) (softwareId license0) = Some software0"
    by (simp add: registry_lookup license0_fields)
  have d: "deviceId license0 \<noteq> []" "deviceId license0 \<noteq> ''dev2''"
    by (simp_all add: license0_fields)
  note t = device_mismatch_denies_without_blocking
      [OF registry_lookup(1) [of license0] sw0 software0_fields(1) d]
  have h: "ledger_held (tokenId license0) = Holder holder0" by (simp add: ledger_held_def)
  have 1: "getDecryptionKey env0 ledger_held 0 (registry license0) lid0 ''dev2'' wallet0 =
     (failure ''Device mismatch. This license is not bound to this device.'', registry license0)"
    using t [where contract_ownerOf = ledger_held and e = env0 and now = 0
        and walletAddress = wallet0, THEN conjunct2, THEN conjunct2, THEN conjunct2,
        THEN conjunct2, THEN conjunct2]
      lid0_valid wallet0_holder0 env0_rpc license0_fields(2) h
    by auto
  have 2: "key (fst (getDecryptionKey env0 ledger_held 0 (registry license0) lid0 ''dev2'' wallet0)) = None"
    using t [where contract_ownerOf = ledger_held and e = env0 and now = 0
        and walletAddress = wallet0, THEN conjunct2, THEN conjunct1] .
  have 3: "\<not> success (fst (getDecryptionKey env0 (ethers_ownerOf (\<lambda>a. holder0) True burned_example) 0
            (registry license0) lid0 ''dev2'' wallet0))"
    using t [where contract_ownerOf = "ethers_ownerOf (\<lambda>a. holder0) True burned_example"
        and e = env0 and now = 0 and walletAddress = wallet0, THEN conjunct1] .
  from 1 2 3 show ?thesis by simp
qed

text \<open>
  The counterexample to C1 as stated: device locking is on, the license is bound to
  \<^verbatim>\<open>dev1\<close>, the request comes from \<^verbatim>\<open>dev2\<close>. The request is denied, and
  afterwards the license is still active, without a reason, and no mail has been sent.
\<close>

theorem device_mismatch_blocks_counterexample:
  "fingerprintLock (licensingRules software0)
   \<and> deviceId license0 = ''dev1''
   \<and> fst (getDecryptionKey env0 ledger_held 0 (registry license0) lid0 ''dev2'' wallet0) =
       failure ''Device mismatch. This license is not bound to this device.''
   \<and> map_option status
        (licenses (snd (getDecryptionKey env0 ledger_held 0 (registry license0) lid0 ''dev2'' wallet0))
           (ObjectId lid0)) = Some Active
   \<and> map_option reason
        (licenses (snd (getDecryptionKey env0 ledger_held 0 (registry license0) lid0 ''dev2'' wallet0))
           (ObjectId lid0)) = Some None
   \<and> outbox (snd (getDecryptionKey env0 ledger_held 0 (registry license0) lid0 ''dev2'' wallet0)) = []"
proof -
  have d: "''dev2'' \<noteq> []" by simp
  show ?thesis
    unfolding example_request [OF d]
    by (simp add: software0_fields license0_fields registry_lookup) (simp add: license0_def)
qed

text \<open>
  C2. The claim: once a license is revoked, no later call of \<^verbatim>\<open>reactivateLicense\<close>
  or \<^verbatim>\<open>getDecryptionKey\<close> succeeds for it, and nothing moves it out of
  \<open>Revoked\<close>. The code says the same of itself (``Cannot reactivate a revoked (burned)
  license'', ``permanently revoked'') and breaks it: the route
  \<^verbatim>\<open>/api/license/delete-by-buyer\<close> writes \<open>DeletedByUser\<close> over \<open>Revoked\<close>
  without looking at the status, and \<^verbatim>\<open>reactivateLicense\<close>, whose only guard is the
  status \<open>Revoked\<close>, then succeeds and makes the license active. The code at this
  input:
\<close>

theorem revoked_license_removed_then_reactivated:
  "revoked_in (registry (license0\<lparr>status := Revoked\<rparr>)) (ObjectId lid0)
   \<and> fst (delete_by_buyer_POST isLowerHexAddress (registry (license0\<lparr>status := Revoked\<rparr>))
          lid0 wallet0) = (succeeded ''License has been removed.'', 200)
   \<and> map_option status
        (licenses (snd (delete_by_buyer_POST isLowerHexAddress
           (registry (license0\<lparr>status := Revoked\<rparr>)) lid0 wallet0)) (ObjectId lid0)) =
       Some DeletedByUser
   \<and> success (fst (reactivateLicense
        (snd (delete_by_buyer_POST isLowerHexAddress
           (registry (license0\<lparr>status := Revoked\<rparr>)) lid0 wallet0)) lid0))
   \<and> map_option status
        (licenses (snd (reactivateLicense
           (snd (delete_by_buyer_POST isLowerHexAddress
              (registry (license0\<lparr>status := Revoked\<rparr>)) lid0 wallet0)) lid0)) (ObjectId lid0)) =
       Some Active"
proof -
  let ?w = "registry (license0\<lparr>status := Revoked\<rparr>)"
  let ?l = "license0\<lparr>status := Revoked\<rparr>"
  have adr: "isLowerHexAddress wallet0"
    by (simp add: isLowerHexAddress_def wallet0_def isHexDigit_def isUpper_def)
  have ch: "?l\<lparr>status := DeletedByUser\<rparr> \<noteq> ?l"
  proof
    assume "?l\<lparr>status := DeletedByUser\<rparr> = ?l"
    then have "status (?l\<lparr>status := DeletedByUser\<rparr>) = status ?l" by simp
    then show False by simp
  qed
  have up: "updateOne_license ?w (ObjectId lid0) (\<lambda>l. l\<lparr>status := DeletedByUser\<rparr>) =
      (1, ?w\<lparr>licenses := (licenses ?w)(ObjectId lid0 \<mapsto> ?l\<lparr>status := DeletedByUser\<rparr>)\<rparr>)"
    using ch by (simp add: updateOne_license_found [OF registry_lookup(1)])
  have del: "delete_by_buyer_POST isLowerHexAddress ?w lid0 wallet0 =
      ((succeeded ''License has been removed.'', 200),
       ?w\<lparr>licenses := (licenses ?w)(ObjectId lid0 \<mapsto> ?l\<lparr>status := DeletedByUser\<rparr>)\<rparr>)"
    by (simp add: delete_by_buyer_POST_def lid0_valid wallet0_holder0 adr registry_lookup
        license0_fields up)
  show ?thesis
    unfolding del
    by (simp add: revoked_example reactivateLicense_def lid0_valid updateOne_license_found
        succeeded_def)
qed

text \<open>
  C3. For a license whose software has device locking, and a non-empty device id \<open>d\<close>:
  if no device is stored, \<^verbatim>\<open>bindDeviceToLicense\<close> stores \<open>d\<close> and succeeds; if
  \<open>d\<close> is stored, it succeeds and changes nothing; if another device is stored, it fails
  with the already-bound message and changes nothing.
\<close>

theorem bindDeviceToLicense_first_use_wins:
  assumes "licenseId \<noteq> []" and "d \<noteq> []" and "ObjectId_isValid licenseId"
    and "licenses w (ObjectId licenseId) = Some lic"
    and "softwareColl w (softwareId lic) = Some sw"
    and "fingerprintLock (licensingRules sw)"
  shows "bindDeviceToLicense w licenseId d =
     (if deviceId lic = [] then
        (succeeded ''Device successfully bound to license.'',
         w\<lparr>licenses := (licenses w)(ObjectId licenseId \<mapsto> lic\<lparr>deviceId := d\<rparr>)\<rparr>)
      else if deviceId lic = d then (succeeded ''Device is already correctly bound.'', w)
      else (failure ''This license is already bound to another device.'', w))"
proof (cases "deviceId lic = []")
  case True
  have "lic\<lparr>deviceId := d\<rparr> \<noteq> lic"
  proof
    assume "lic\<lparr>deviceId := d\<rparr> = lic"
    then have "deviceId (lic\<lparr>deviceId := d\<rparr>) = deviceId lic" by simp
    with True assms(2) show False by simp
  qed
  then have "updateOne_license w (ObjectId licenseId) (\<lambda>l. l\<lparr>deviceId := d\<rparr>) =
          (1, w\<lparr>licenses := (licenses w)(ObjectId licenseId \<mapsto> lic\<lparr>deviceId := d\<rparr>)\<rparr>)"
    using assms(4) by (simp add: updateOne_license_found)
  then show ?thesis
    using assms True by (simp add: bindDeviceToLicense_def)
next
  case False
  then show ?thesis
    using assms by (simp add: bindDeviceToLicense_def)
qed

theorem bindDeviceToLicense_first_use_wins_witness:
  "fst (bindDeviceToLicense (registry (license0\<lparr>deviceId := []\<rparr>)) lid0 ''dev1'') =
     succeeded ''Device successfully bound to license.''
   \<and> licenses (snd (bindDeviceToLicense (registry (license0\<lparr>deviceId := []\<rparr>)) lid0 ''dev1''))
        (ObjectId lid0) = Some license0
   \<and> bindDeviceToLicense (registry license0) lid0 ''dev1'' =
       (succeeded ''Device is already correctly bound.'', registry license0)
   \<and> bindDeviceToLicense (registry license0) lid0 ''dev2'' =
       (failure ''This license is already bound to another device.'', registry license0)"
proof -
  have sw: "softwareColl (registry lic) (softwareId (license0\<lparr>deviceId := x\<rparr>)) = Some software0"
    for lic x by (simp add: registry_lookup license0_fields)
  have sw0: "softwareColl (registry lic) (softwareId license0) = Some software0" for lic
    by (simp add: registry_lookup license0_fields)
  note t = bindDeviceToLicense_first_use_wins
  have a: "bindDeviceToLicense (registry (license0\<lparr>deviceId := []\<rparr>)) lid0 ''dev1'' =
      (succeeded ''Device successfully bound to license.'',
       (registry (license0\<lparr>deviceId := []\<rparr>))\<lparr>licenses :=
          (licenses (registry (license0\<lparr>deviceId := []\<rparr>)))(ObjectId lid0 \<mapsto>
             license0\<lparr>deviceId := [], deviceId := ''dev1''\<rparr>)\<rparr>)"
    using t [OF lid0_valid(1) _ lid0_valid(2) registry_lookup(1) sw software0_fields(1),
        of "''dev1''" "[]"]
    by simp
  have b: "bindDeviceToLicense (registry license0) lid0 ''dev1'' =
       (succeeded ''Device is already correctly bound.'', registry license0)"
    using t [OF lid0_valid(1) _ lid0_valid(2) registry_lookup(1) sw0 software0_fields(1),
        of "''dev1''"]
    by (simp add: license0_fields)
  have c: "bindDeviceToLicense (registry license0) lid0 ''dev2'' =
       (failure ''This license is already bound to another device.'', registry license0)"
    using t [OF lid0_valid(1) _ lid0_valid(2) registry_lookup(1) sw0 software0_fields(1),
        of "''dev2''"]
    by (simp add: license0_fields)
  have d: "license0\<lparr>deviceId := [], deviceId := ''dev1''\<rparr> = license0"
    by (simp add: license0_def)
  from a b c show ?thesis by (simp add: d)
qed

text \<open>
  C4. The claim: when the registry says active and the token no longer exists on the
  ledger, \<^verbatim>\<open>getDecryptionKey\<close> denies the request and leaves the license revoked. The
  code has the branch for it, and takes it only when the reason of the failed read has
  the words \<^verbatim>\<open>invalid token ID\<close>. The contract of the repository reports a burned
  token with the custom error \<^verbatim>\<open>ERC721NonexistentToken\<close>, which has no such words,
  with or without the error in the ABI. The code at this input: token 7 of the example
  contract is burned, the read reverts, the request is answered as a fault of the ledger
  and the license stays active.
\<close>

theorem burned_token_is_not_recognised:
  "ownerOf burned_example 7 = Inl (Revert ''ERC721NonexistentToken'')
   \<and> getDecryptionKey env0 (ethers_ownerOf show_address True burned_example) now
        (registry license0) lid0 ''dev1'' wallet0 =
       (failure ''Could not verify license ownership on the blockchain.'', registry license0)
   \<and> getDecryptionKey env0 (ethers_ownerOf show_address False burned_example) now
        (registry license0) lid0 ''dev1'' wallet0 =
       (failure ''Could not verify license ownership on the blockchain.'', registry license0)
   \<and> map_option status (licenses (registry license0) (ObjectId lid0)) = Some Active"
proof -
  have sw0: "softwareColl (registry license0) (softwareId license0) = Some software0"
    by (simp add: registry_lookup license0_fields)
  have d: "''dev1'' \<noteq> []" by simp
  have b: "owners burned_example 7 = 0"
    by (simp add: burned_example_def burn_def SoftwareLicense_update_def ERC721_update_def
        ownerOf_internal_def minted_example_def Let_def)
  have o: "ownerOf burned_example 7 = Inl (Revert ''ERC721NonexistentToken'')"
    using b by (simp add: ownerOf_def ownerOf_internal_def)
  have t: "ethers_ownerOf show_address True burned_example (tokenId license0) =
      CallError (JsError (Some ''ERC721NonexistentToken(uint256)'')
        ''execution reverted: ERC721NonexistentToken(uint256)'')"
    using o by (simp add: ethers_ownerOf_def license0_fields)
  have f: "ethers_ownerOf show_address False burned_example (tokenId license0) =
      CallError (JsError None ''execution reverted (unknown custom error)'')"
    using o by (simp add: ethers_ownerOf_def license0_fields)
  have nt: "\<not> reports_burned (JsError (Some ''ERC721NonexistentToken(uint256)'')
        ''execution reverted: ERC721NonexistentToken(uint256)'')"
    by simp
  have nf: "\<not> reports_burned (JsError None ''execution reverted (unknown custom error)'')"
    by simp
  note u = getDecryptionKey_unrecognised_error [OF lid0_valid(1) d wallet0_holder0(1)
      env0_rpc(1) lid0_valid(2) registry_lookup(1) [of license0] license0_fields(2) sw0]
  have 1: "getDecryptionKey env0 (ethers_ownerOf show_address True burned_example) now
        (registry license0) lid0 ''dev1'' wallet0 =
       (failure ''Could not verify license ownership on the blockchain.'', registry license0)"
    by (rule u [where contract_ownerOf = "ethers_ownerOf show_address True burned_example",
          OF t nt])
  have 2: "getDecryptionKey env0 (ethers_ownerOf show_address False burned_example) now
        (registry license0) lid0 ''dev1'' wallet0 =
       (failure ''Could not verify license ownership on the blockchain.'', registry license0)"
    by (rule u [where contract_ownerOf = "ethers_ownerOf show_address False burned_example",
          OF f nf])
  from o 1 2 show ?thesis
    by (simp add: registry_lookup license0_fields)
qed

text \<open>
  C5. The claim: \<^verbatim>\<open>reactivateLicense\<close> succeeds only on a blocked license and rejects
  a revoked one and one that the buyer has removed. The code is documented so
  (``Reactivates a "blocked" license''; the buyer is told that the removal cannot be
  undone) and guards only against \<open>Revoked\<close>. The code at the failing input: a license
  with the status \<open>DeletedByUser\<close> is reactivated and becomes active, and an active
  license is ``reactivated'' too.
\<close>

theorem reactivateLicense_accepts_deleted_by_user:
  "success (fst (reactivateLicense (registry (license0\<lparr>status := DeletedByUser\<rparr>)) lid0))
   \<and> map_option status
        (licenses (snd (reactivateLicense (registry (license0\<lparr>status := DeletedByUser\<rparr>)) lid0))
           (ObjectId lid0)) = Some Active
   \<and> success (fst (reactivateLicense (registry license0) lid0))"
  by (simp add: reactivateLicense_def lid0_valid registry_lookup updateOne_license_found
      succeeded_def license0_fields)

text \<open>
  C6. \<^verbatim>\<open>revokeLicense\<close> writes to the registry only after the burn on the ledger is
  confirmed: when the ledger call throws, the answer is a failure and the registry is
  unchanged; every failure leaves the registry unchanged; and a success means that the
  burn was confirmed and the license is now revoked with the seller's reason.
\<close>

theorem revokeLicense_writes_only_after_the_burn:
  shows "(\<forall>lic err. licenses w (ObjectId licenseId) = Some lic \<and>
             contract_revokeLicense (tokenId lic) = TxThrew err \<longrightarrow>
           \<not> success (fst (revokeLicense e contract_revokeLicense store w licenseId)) \<and>
           snd (revokeLicense e contract_revokeLicense store w licenseId) = w)
       \<and> (\<not> success (fst (revokeLicense e contract_revokeLicense store w licenseId)) \<longrightarrow>
            snd (revokeLicense e contract_revokeLicense store w licenseId) = w)
       \<and> (success (fst (revokeLicense e contract_revokeLicense store w licenseId)) \<longrightarrow>
            (\<exists>lic. licenses w (ObjectId licenseId) = Some lic \<and>
               contract_revokeLicense (tokenId lic) = TxConfirmed \<and>
               snd (revokeLicense e contract_revokeLicense store w licenseId) =
                 w\<lparr>licenses := (licenses w)(ObjectId licenseId \<mapsto>
                      lic\<lparr>status := Revoked, reason := Some ''Seller revoked''\<rparr>)\<rparr>))"
proof (cases "licenses w (ObjectId licenseId)")
  case None
  then show ?thesis by (simp add: revokeLicense_def failure_def)
next
  case (Some lic)
  then show ?thesis
    by (cases "contract_revokeLicense (tokenId lic)"; cases store)
       (simp_all add: revokeLicense_def failure_def succeeded_def updateOne_license_found)
qed

theorem revokeLicense_writes_only_after_the_burn_witness:
  "revokeLicense env0 burn_fails WriteApplied (registry license0) lid0 =
     (failure ''Failed to revoke license: ERC721: token nonexistent'', registry license0)
   \<and> success (fst (revokeLicense env0 burn_confirmed WriteApplied (registry license0) lid0))
   \<and> map_option status
        (licenses (snd (revokeLicense env0 burn_confirmed WriteApplied (registry license0) lid0))
           (ObjectId lid0)) = Some Revoked
   \<and> snd (revokeLicense env0 burn_confirmed
            (WriteThrew (JsError None ''connection closed'')) (registry license0) lid0) =
       registry license0"
proof -
  have f: "revokeLicense env0 burn_fails WriteApplied (registry license0) lid0 =
     (failure ''Failed to revoke license: ERC721: token nonexistent'', registry license0)"
    by (simp add: revokeLicense_def env0_rpc lid0_valid registry_lookup burn_fails_def)
  have s: "success (fst (revokeLicense env0 burn_confirmed WriteApplied (registry license0) lid0))"
    by (simp add: revokeLicense_def env0_rpc lid0_valid registry_lookup burn_confirmed_def
        succeeded_def)
  have n: "\<not> success (fst (revokeLicense env0 burn_confirmed
            (WriteThrew (JsError None ''connection closed'')) (registry license0) lid0))"
    by (simp add: revokeLicense_def env0_rpc lid0_valid registry_lookup burn_confirmed_def
        failure_def)
  note t = revokeLicense_writes_only_after_the_burn
  from s t [of "registry license0" lid0 burn_confirmed env0 WriteApplied]
  have "map_option status
        (licenses (snd (revokeLicense env0 burn_confirmed WriteApplied (registry license0) lid0))
           (ObjectId lid0)) = Some Revoked"
    by auto
  moreover from n t [of "registry license0" lid0 burn_confirmed env0
      "WriteThrew (JsError None ''connection closed'')"]
  have "snd (revokeLicense env0 burn_confirmed
            (WriteThrew (JsError None ''connection closed'')) (registry license0) lid0) =
       registry license0"
    by blast
  ultimately show ?thesis using f s by simp
qed

text \<open>
  C7. As stated the claim fails: \<^verbatim>\<open>getDecryptionKey\<close> takes no locality and
  compares none. What holds: its answer is the same when every stored locality and every
  \<^verbatim>\<open>ipLock\<close> rule is erased, and a refusal carries one of the messages of
  \<open>gate_denials\<close>, none of which is about locality.
\<close>

theorem key_release_makes_no_locality_check:
  "fst (getDecryptionKey e contract_ownerOf now (erase_locality w) licenseId device walletAddress) =
     fst (getDecryptionKey e contract_ownerOf now w licenseId device walletAddress)
   \<and> (success (fst (getDecryptionKey e contract_ownerOf now w licenseId device walletAddress))
      \<or> message (fst (getDecryptionKey e contract_ownerOf now w licenseId device walletAddress))
          \<in> set gate_denials)"
  using getDecryptionKey_erase_locality getDecryptionKey_denials by blast

theorem key_release_makes_no_locality_check_witness:
  "fst (getDecryptionKey env0 ledger_held 0 (erase_locality (registry license0)) lid0 ''dev1'' wallet0) =
     fst (getDecryptionKey env0 ledger_held 0 (registry license0) lid0 ''dev1'' wallet0)
   \<and> success (fst (getDecryptionKey env0 ledger_held 0 (registry license0) lid0 ''dev1'' wallet0))
   \<and> message (fst (getDecryptionKey env0 ledger_held 0 (registry license0) lid0 ''dev2'' wallet0))
        \<in> set gate_denials"
proof -
  have d: "''dev1'' \<noteq> []" "''dev2'' \<noteq> []" by simp_all
  have s: "success (fst (getDecryptionKey env0 ledger_held 0 (registry license0) lid0 ''dev1'' wallet0))"
    unfolding example_request [OF d(1)] by simp
  have n: "\<not> success (fst (getDecryptionKey env0 ledger_held 0 (registry license0) lid0 ''dev2'' wallet0))"
    unfolding example_request [OF d(2)] by (simp add: failure_def)
  show ?thesis
    using key_release_makes_no_locality_check [of env0 ledger_held 0 "registry license0" lid0 "''dev1''" wallet0]
      key_release_makes_no_locality_check [of env0 ledger_held 0 "registry license0" lid0 "''dev2''" wallet0]
      s n by blast
qed

text \<open>
  The counterexample to C7 as stated: the software has \<^verbatim>\<open>ipLock\<close>, the license
  has a locality recorded at the mint, and the key is released; the request carries no
  locality at all, so this is the answer to a requester at any address.
\<close>

theorem locality_mismatch_counterexample:
  "ipLock (licensingRules software0)
   \<and> buyerIp license0 = ''203.0.113.7''
   \<and> getDecryptionKey env0 ledger_held 0 (registry license0) lid0 ''dev1'' wallet0 =
       (\<lparr>success = True, message = ''Key retrieved successfully.'',
         key = Some ''00112233445566778899aabbccddeeff'',
         keyFileUrl = Some ''https://ipfs.io/ipfs/QmEditor''\<rparr>, registry license0)"
proof -
  have d: "''dev1'' \<noteq> []" by simp
  show ?thesis
    unfolding example_request [OF d]
    by (simp add: software0_def license0_def)
qed

text \<open>
  C8. Once a request has reached the ownership read and the ledger has answered with a
  holder: if the holder is not the requester's address up to letter case, the answer is
  the not-the-owner denial, without a key and without a change; if it is, the request goes
  on to the device check.
\<close>

theorem ownership_is_compared_ignoring_case:
  assumes "licenseId \<noteq> []" and "device \<noteq> []" and "walletAddress \<noteq> []"
    and "NEXT_PUBLIC_AMOY_RPC_URL e \<noteq> []" and "ObjectId_isValid licenseId"
    and "licenses w (ObjectId licenseId) = Some lic" and "status lic = Active"
    and "softwareColl w (softwareId lic) = Some sw"
    and "contract_ownerOf (tokenId lic) = Holder holder"
  shows "getDecryptionKey e contract_ownerOf now w licenseId device walletAddress =
     (if \<not> equalIgnoringCase holder walletAddress then
        (failure ''Smart contract check failed: The connected wallet is not the owner of this license NFT.'', w)
      else if fingerprintLock (licensingRules sw) \<and>
              deviceId lic \<noteq> [] \<and> deviceId lic \<noteq> device then
        (failure ''Device mismatch. This license is not bound to this device.'', w)
      else if decryptionKey sw = [] \<or> fileUrl sw = [] then
        (failure ''Could not find the software's decryption key or file URL.'', w)
      else
        (\<lparr>success = True, message = ''Key retrieved successfully.'',
          key = Some (decryptionKey sw), keyFileUrl = Some (fileUrl sw)\<rparr>, w))"
  unfolding getDecryptionKey_at_ledger [OF assms(1-8)]
  using assms(9) by (simp add: toLowerCase_eq_iff)

theorem ownership_is_compared_ignoring_case_witness:
  "getDecryptionKey env0 ledger_held 0 (registry license0) lid0 ''dev1'' wallet0 =
     (\<lparr>success = True, message = ''Key retrieved successfully.'',
       key = Some (decryptionKey software0), keyFileUrl = Some (fileUrl software0)\<rparr>,
      registry license0)
   \<and> getDecryptionKey env0 ledger_held 0 (registry license0) lid0 ''dev1''
       ''0xabcdef0123456789abcdef0123456789abcdef02'' =
     (failure ''Smart contract check failed: The connected wallet is not the owner of this license NFT.'',
      registry license0)"
proof -
  have sw0: "softwareColl (registry license0) (softwareId license0) = Some software0"
    by (simp add: registry_lookup license0_fields)
  have l: "ledger_held (tokenId license0) = Holder holder0"
    by (simp add: ledger_held_def)
  have d: "''dev1'' \<noteq> []" by simp
  have o: "''0xabcdef0123456789abcdef0123456789abcdef02'' \<noteq> []" by simp
  have same: "equalIgnoringCase holder0 wallet0"
    using wallet0_holder0(2) by (simp add: toLowerCase_eq_iff)
  have other: "\<not> equalIgnoringCase holder0 ''0xabcdef0123456789abcdef0123456789abcdef02''"
    by (simp add: equalIgnoringCase_def sameLetter_def isUpper_def holder0_def)
  note t = ownership_is_compared_ignoring_case [where contract_ownerOf = ledger_held
        and now = 0, OF lid0_valid(1) d _ env0_rpc(1)
        lid0_valid(2) registry_lookup(1) [of license0] license0_fields(2) sw0 l]
  show ?thesis
    using t [OF wallet0_holder0(1)] t [OF o] same other
    by (simp add: software0_fields license0_fields)
qed

end
